theory Spec2Isabelle
  imports Main
begin

section \<open>JavaScript strings and values\<close>

text \<open>
  A JavaScript string is modelled as a \<^typ>\<open>string\<close>: a list of code units, here the
  code units U+0000 to U+00FF. \<open>null\<close> and \<open>undefined\<close> of a \<open>string | null\<close> parameter
  are \<^term>\<open>None\<close>.
\<close>

definition isWhiteSpace :: "char \<Rightarrow> bool" where
  \<comment> \<open>ECMAScript WhiteSpace and LineTerminator below U+0100: TAB, LF, VT, FF, CR, SP, NBSP.\<close>
  "isWhiteSpace c = (of_char c \<in> {9, 10, 11, 12, 13, 32, 160 :: nat})"

definition trim :: "string \<Rightarrow> string" where
  \<comment> \<open>\<open>String.prototype.trim\<close>\<close>
  "trim s = rev (dropWhile isWhiteSpace (rev (dropWhile isWhiteSpace s)))"

fun split_on :: "char \<Rightarrow> string \<Rightarrow> string list" where
  \<comment> \<open>\<open>s.split(c)\<close> for a separator of one character: never empty, \<open>''''.split(c) = ['''']\<close>\<close>
  "split_on c [] = [[]]"
| "split_on c (x # xs) =
     (if x = c then [] # split_on c xs
      else (case split_on c xs of [] \<Rightarrow> [[x]] | w # ws \<Rightarrow> (x # w) # ws))"

fun join :: "string \<Rightarrow> string list \<Rightarrow> string" where
  \<comment> \<open>\<open>Array.prototype.join\<close>\<close>
  "join sep [] = []"
| "join sep [x] = x"
| "join sep (x # y # ys) = x @ sep @ join sep (y # ys)"

definition truthy :: "string option \<Rightarrow> bool" where
  \<comment> \<open>\<open>Boolean(x)\<close> for \<open>x: string | null | undefined\<close>: the empty string is falsy\<close>
  "truthy x = (case x of None \<Rightarrow> False | Some s \<Rightarrow> s \<noteq> [])"

definition or_else :: "string option \<Rightarrow> string \<Rightarrow> string" where
  \<comment> \<open>\<open>x || d\<close> for an optional string \<open>x\<close>\<close>
  "or_else x d = (if truthy x then the x else d)"

fun String_of_nat :: "nat \<Rightarrow> string" where
  \<comment> \<open>a non-negative integer in a template literal: its decimal digits\<close>
  "String_of_nat n =
     (if n < 10 then [''0123456789'' ! n]
      else String_of_nat (n div 10) @ [''0123456789'' ! (n mod 10)])"

declare String_of_nat.simps [simp del]

datatype json =
    JNull
  | JBool bool
  | JNum int
  | JStr string
  | JArr "json list"
  | JObj "(string \<times> json) list"

text \<open>
  A thrown value: an \<open>Error\<close> with its \<open>message\<close>, or any other value with its
  \<open>String(...)\<close> rendering.
\<close>

datatype thrown = JsError string | NonError string

definition errorMessage :: "thrown \<Rightarrow> string" where
  \<comment> \<open>\<open>error instanceof Error ? error.message : String(error)\<close>\<close>
  "errorMessage error = (case error of JsError message \<Rightarrow> message | NonError s \<Rightarrow> s)"

subsection \<open>\<open>JSON.stringify\<close> of an object whose values are strings\<close>

definition hex_digit :: "nat \<Rightarrow> char" where
  "hex_digit d = ''0123456789abcdef'' ! (d mod 16)"

definition quote_char :: "char \<Rightarrow> string" where
  \<comment> \<open>one code unit inside \<open>QuoteJSONString\<close> (ECMA-262)\<close>
  "quote_char c =
     (let n = (of_char c :: nat) in
      if n = 8 then [CHR 0x5C, CHR ''b'']
      else if n = 9 then [CHR 0x5C, CHR ''t'']
      else if n = 10 then [CHR 0x5C, CHR ''n'']
      else if n = 12 then [CHR 0x5C, CHR ''f'']
      else if n = 13 then [CHR 0x5C, CHR ''r'']
      else if n = 34 then [CHR 0x5C, CHR 0x22]
      else if n = 92 then [CHR 0x5C, CHR 0x5C]
      else if n < 32 then [CHR 0x5C, CHR ''u'', CHR ''0'', CHR ''0'', hex_digit (n div 16), hex_digit n]
      else [c])"

definition QuoteJSONString :: "string \<Rightarrow> string" where
  "QuoteJSONString s = [CHR 0x22] @ concat (map quote_char s) @ [CHR 0x22]"

definition JSON_stringify :: "(string \<times> string) list \<Rightarrow> string" where
  \<comment> \<open>\<open>JSON.stringify(o)\<close> for the own properties of \<open>o\<close> in property order\<close>
  "JSON_stringify obj =
     ''{'' @ join '','' (map (\<lambda>(k, v). QuoteJSONString k @ '':'' @ QuoteJSONString v) obj) @ ''}''"

definition obj_put :: "(string \<times> string) list \<Rightarrow> string \<Rightarrow> string \<Rightarrow> (string \<times> string) list" where
  \<comment> \<open>\<open>{ ...acc, [key]: v }\<close>: an existing key keeps its place, a new one goes last\<close>
  "obj_put acc key v =
     (if key \<in> fst ` set acc then map (\<lambda>(k, w). if k = key then (k, v) else (k, w)) acc
      else acc @ [(key, v)])"

section \<open>The provider's tools (\<open>listTools\<close>)\<close>

text \<open>
  A tool as \<open>listTools\<close> returns it: JSON sent by the provider. The fields are those the
  cast in \<open>discoverTools\<close> names, \<open>properties?: Record<string, { type?: string;
  description?: string }>\<close> and \<open>required?: string[]\<close>, but the cast checks nothing: a
  property's schema may be \<open>null\<close>, and then \<open>value.type\<close> throws. A \<open>Record\<close> is the list of
  its entries in the order of \<open>Object.entries\<close>. For a key, \<^term>\<open>None\<close> is an absent key;
  for a property's schema, \<^term>\<open>None\<close> is \<open>null\<close>.
\<close>

record prop_schema =
  type_tag :: "string option"
  prop_description :: "string option"

record schema =
  properties :: "(string \<times> prop_schema option) list option"
  required :: "string list option"

record tool =
  name :: string
  description :: "string option"
  inputSchema :: "schema option"

section \<open>Console, provider and process state\<close>

datatype console_arg = Str string | Thrown thrown

datatype event =
    ConsoleLog "console_arg list"
  | ConsoleError "console_arg list"
  | ConsoleWarn "console_arg list"
  | ConsoleClear
  | RlPrompt

datatype request =
    Connect string string
  | ListTools
  | CallTool string json
  | Close

text \<open>
  The provider behind the SDK client: what \<open>connect\<close>, \<open>listTools\<close>, \<open>callTool\<close> and \<open>close\<close>
  answer. \<open>callTool\<close> may depend on the requests made before it. \<^term>\<open>Inl\<close> and
  \<^term>\<open>Some\<close> are a rejected promise.
\<close>

record provider =
  connect_result :: "thrown option"
  listTools_result :: "thrown + tool list"
  callTool_result :: "request list \<Rightarrow> string \<Rightarrow> json \<Rightarrow> thrown + json"
  close_result :: "thrown option"

text \<open>The runtime's \<open>JSON.parse\<close> and \<open>JSON.stringify(result, null, 2)\<close>.\<close>

record runtime =
  JSON_parse :: "string \<Rightarrow> thrown + json"
  JSON_stringify_pretty :: "json \<Rightarrow> string"

text \<open>
  The process: the three arrays of \<open>config/constants\<close>, the wrapper's \<open>client\<close> field (the
  name and version it was constructed with, \<^term>\<open>None\<close> for \<open>null\<close>), what was written to the
  console, the requests sent to the provider, whether the readline interface is closed,
  and the exit status once \<open>process.exit\<close> was called.
\<close>

record state =
  COMMANDS :: "string list"
  COMMANDS_INFO :: "string list"
  COMMANDS_DETAIL :: "string list"
  client :: "(string \<times> string) option"
  console :: "event list"
  requests :: "request list"
  rl_closed :: bool
  exit_code :: "nat option"

definition emit :: "event list \<Rightarrow> state \<Rightarrow> state" where
  "emit es st = st\<lparr>console := console st @ es\<rparr>"

definition send :: "request \<Rightarrow> state \<Rightarrow> state" where
  "send r st = st\<lparr>requests := requests st @ [r]\<rparr>"

definition make_sure :: "event list" where
  \<comment> \<open>the four \<open>console.error\<close> lines of \<open>wrapper.connect\<close> and of the runner\<close>
  "make_sure =
     [ConsoleError [Str ''\<newline>Make sure:''],
      ConsoleError [Str ''1. Figma Desktop app is running''],
      ConsoleError [Str ''2. You have enabled \"Desktop MCP server\" in Dev Mode''],
      ConsoleError [Str ''3. The server is running at http://127.0.0.1:3845/mcp'']]"

section \<open>\<open>wrapper.discoverTools\<close>\<close>

definition tool_info :: "tool \<Rightarrow> string" where
  \<comment> \<open>\<open>tool.description || 'No description available'\<close>\<close>
  "tool_info t = or_else (description t) ''No description available''"

definition null_type_error :: thrown where
  \<comment> \<open>the \<open>TypeError\<close> of \<open>value.type\<close> on \<open>null\<close>\<close>
  "null_type_error =
     JsError (''Cannot read properties of null (reading '' @ [CHR 0x27] @ ''type'' @ [CHR 0x27] @ '')'')"

fun format_properties :: "string list \<Rightarrow> (string \<times> prop_schema option) list \<Rightarrow> string
    \<Rightarrow> thrown + string" where
  \<comment> \<open>the loop over \<open>Object.entries(properties)\<close>, appending to \<open>detail\<close>; \<^term>\<open>Inl\<close> is what
      it throws\<close>
  "format_properties req [] detail = Inr detail"
| "format_properties req ((key, None) # rest) detail = Inl null_type_error"
| "format_properties req ((key, Some v) # rest) detail =
     (let isRequired = (key \<in> set req);
          ty = or_else (type_tag v) ''any'';
          desc = or_else (prop_description v) ''''
      in format_properties req rest
           (detail @ ''- '' @ key @ '' '' @ (if isRequired then ''(required)'' else ''(optional)'')
              @ '': '' @ ty @ '' - '' @ desc @ ''\<newline>''))"

definition has_properties :: "schema option \<Rightarrow> bool" where
  \<comment> \<open>\<open>tool.inputSchema && typeof tool.inputSchema === 'object' && 'properties' in tool.inputSchema\<close>\<close>
  "has_properties s = (case s of None \<Rightarrow> False | Some sc \<Rightarrow> properties sc \<noteq> None)"

definition example_object :: "string list \<Rightarrow> (string \<times> string) list" where
  \<comment> \<open>\<open>keys.reduce((acc, key) => ({ ...acc, [key]: `<${key}>` }), {})\<close>\<close>
  "example_object keys = foldl (\<lambda>acc key. obj_put acc key (''<'' @ key @ ''>'')) [] keys"

definition tool_detail :: "tool \<Rightarrow> thrown + string" where
  \<comment> \<open>the text built for \<open>COMMANDS_DETAIL\<close> in one turn of the loop, or what building it throws\<close>
  "tool_detail t =
     (let detail = ''\<newline>Parameters:\<newline>'';
          built =
            (if has_properties (inputSchema t) then
               (let sc = the (inputSchema t);
                    props = (case properties sc of None \<Rightarrow> [] | Some p \<Rightarrow> p);
                    req = (case required sc of None \<Rightarrow> [] | Some r \<Rightarrow> r)
                in format_properties req props detail)
             else Inr (detail @ ''No parameters required\<newline>''))
      in case built of
           Inl error \<Rightarrow> Inl error
         | Inr detail \<Rightarrow>
             Inr (detail @ ''\<newline>Example:\<newline>'' @ name t @ '' ''
                  @ (if has_properties (inputSchema t) then
                       JSON_stringify (example_object
                         (map fst (case properties (the (inputSchema t)) of
                                     None \<Rightarrow> [] | Some p \<Rightarrow> p)))
                     else ''{}'')
                  @ ''\<newline>''))"

fun populate :: "tool list \<Rightarrow> state \<Rightarrow> (thrown \<times> state) + state" where
  \<comment> \<open>\<open>for (const tool of tools.tools)\<close>: the name and the description are pushed, then the
      detail is built and pushed; \<^term>\<open>Inl\<close> is a throw, with the arrays as they are then\<close>
  "populate [] st = Inr st"
| "populate (t # ts) st =
     (let st1 = st\<lparr>COMMANDS := COMMANDS st @ [name t]\<rparr>;
          st2 = st1\<lparr>COMMANDS_INFO := COMMANDS_INFO st1 @ [tool_info t]\<rparr>
      in case tool_detail t of
           Inl error \<Rightarrow> Inl (error, st2)
         | Inr detail \<Rightarrow>
             populate ts (st2\<lparr>COMMANDS_DETAIL := COMMANDS_DETAIL st2 @ [detail]\<rparr>))"

definition discoverTools_try :: "provider \<Rightarrow> state \<Rightarrow> (thrown \<times> state) + state" where
  \<comment> \<open>the \<open>try\<close> block: \<open>listTools\<close>, the clearing of the three arrays, the loop, the count\<close>
  "discoverTools_try pv st =
     (let st0 = send ListTools st in
      case listTools_result pv of
        Inl error \<Rightarrow> Inl (error, st0)
      | Inr tools \<Rightarrow>
          (let st1 = st0\<lparr>COMMANDS := [], COMMANDS_INFO := [], COMMANDS_DETAIL := []\<rparr> in
           case populate tools st1 of
             Inl (error, st2) \<Rightarrow> Inl (error, st2)
           | Inr st2 \<Rightarrow>
               Inr (emit [ConsoleLog [Str (''\<newline>Discovered '' @ String_of_nat (length tools)
                                           @ '' tools from Figma MCP server'')]] st2)))"

definition discoverTools :: "provider \<Rightarrow> state \<Rightarrow> state" where
  "discoverTools pv st =
     (case client st of
        None \<Rightarrow> st
      | Some _ \<Rightarrow>
          (case discoverTools_try pv st of
             Inr st' \<Rightarrow> st'
           | Inl (error, st') \<Rightarrow>
               emit [ConsoleWarn [Str ''Warning: Could not discover tools from server:'', Thrown error]]
                 st'))"

section \<open>The helpers of \<open>commands/index\<close>\<close>

text \<open>
  \<open>getCurrentVersion\<close>, \<open>printAvailableCommands\<close> and \<open>printCommandDetail\<close> are imported by the
  wrapper; they read the three arrays and write to the console. The wrapper's functions
  take them as a parameter.
\<close>

record helpers =
  getCurrentVersion :: string
  printAvailableCommands :: "string list \<Rightarrow> string list \<Rightarrow> string list \<Rightarrow> event list"
  printCommandDetail :: "string list \<Rightarrow> string list \<Rightarrow> string list \<Rightarrow> string \<Rightarrow> event list"

section \<open>\<open>wrapper\<close>: connect, help, the command line\<close>

definition printHelp :: "helpers \<Rightarrow> state \<Rightarrow> state" where
  "printHelp hp st =
     (let version = getCurrentVersion hp;
          commandList = (if length (COMMANDS st) > 0 then join '', '' (COMMANDS st)
                         else ''No commands available (not connected)'')
      in emit [ConsoleLog [Str (''\<newline>Figma Desktop MCP CLI v'' @ version @ ''\<newline>\<newline>Usage:\<newline>\<newline>commands         list all the available commands\<newline><command> -h     quick help on <command>\<newline><command> <arg>  run <command> with argument\<newline>clear            clear the screen\<newline>exit, quit, q    exit the CLI\<newline>\<newline>All commands:\<newline>\<newline>'' @ commandList @ ''\<newline>\<newline>Note: Make sure Figma Desktop app is running with MCP server enabled in Dev Mode.\<newline>Select a frame/layer in Figma before using commands that require selections.\<newline>\<newline>'')]] st)"

definition connect :: "helpers \<Rightarrow> provider \<Rightarrow> state \<Rightarrow> state" where
  \<comment> \<open>\<open>new URL(DEFAULT_MCP_SERVER.url)\<close> is the URL of a constant and does not throw\<close>
  "connect hp pv st =
     (let st1 = st\<lparr>client := Some (''figma-desktop-cli'', ''1'')\<rparr>;
          st2 = send (Connect ''figma-desktop-cli'' ''1'') st1
      in case connect_result pv of
           Some error \<Rightarrow>
             (emit ([ConsoleError [Str ''Failed to connect to Figma Desktop MCP server:'', Thrown error]]
                    @ make_sure) st2)\<lparr>exit_code := Some 1\<rparr>
         | None \<Rightarrow> printHelp hp (discoverTools pv st2))"

definition parse_arg :: "runtime \<Rightarrow> string option \<Rightarrow> thrown + json" where
  \<comment> \<open>\<open>arg && arg.trim() !== '' ? JSON.parse(arg) : {}\<close>, the same in the wrapper and the runner\<close>
  "parse_arg rt arg =
     (if truthy arg \<and> trim (the arg) \<noteq> [] then JSON_parse rt (the arg) else Inr (JObj []))"

definition echo :: "string option list \<Rightarrow> event" where
  \<comment> \<open>\<open>console.log([...].filter(Boolean).join(' '))\<close>\<close>
  "echo xs = ConsoleLog [Str (join '' '' (map the (filter truthy xs)))]"

definition wrapper_runCommand_try :: "runtime \<Rightarrow> provider \<Rightarrow> state \<Rightarrow> string \<Rightarrow> string option
    \<Rightarrow> (thrown \<times> state) + state" where
  \<comment> \<open>the \<open>try\<close> block: \<^term>\<open>Inl\<close> is what it throws, with the state at the throw\<close>
  "wrapper_runCommand_try rt pv st command arg =
     (let st1 = emit [echo [Some command, arg]] st in
      case parse_arg rt arg of
        Inl error \<Rightarrow> Inl (error, st1)
      | Inr argObj \<Rightarrow>
          (let st2 = send (CallTool command argObj) st1 in
           case callTool_result pv (requests st1) command argObj of
             Inl error \<Rightarrow> Inl (error, st2)
           | Inr result \<Rightarrow> Inr (emit [ConsoleLog [Str (JSON_stringify_pretty rt result)]] st2)))"

definition wrapper_runCommand :: "runtime \<Rightarrow> provider \<Rightarrow> state \<Rightarrow> string \<Rightarrow> string option \<Rightarrow> state" where
  "wrapper_runCommand rt pv st command arg =
     (case client st of
        None \<Rightarrow> emit [RlPrompt] (emit [ConsoleLog [Str ''MCP server not available!'']] st)
      | Some _ \<Rightarrow>
          (let st' =
             (case wrapper_runCommand_try rt pv st command arg of
                Inr st1 \<Rightarrow> st1
              | Inl (error, st1) \<Rightarrow>
                  (let errorMessage = errorMessage error
                   in emit [ConsoleError [Str ''Error running command:'', Str errorMessage]] st1))
           in emit [RlPrompt] st'))"

definition on_close :: "provider \<Rightarrow> state \<Rightarrow> state" where
  \<comment> \<open>the \<open>close\<close> listener of \<open>start\<close>: \<open>await this.client?.close(); process.exit(0)\<close>. A rejected
      \<open>close\<close> is an unhandled rejection, which ends the process with status 1.\<close>
  "on_close pv st =
     (case client st of
        None \<Rightarrow> st\<lparr>exit_code := Some 0\<rparr>
      | Some _ \<Rightarrow>
          (let st1 = send Close st in
           case close_result pv of
             None \<Rightarrow> st1\<lparr>exit_code := Some 0\<rparr>
           | Some error \<Rightarrow> st1\<lparr>exit_code := Some 1\<rparr>))"

definition disconnect :: "provider \<Rightarrow> state \<Rightarrow> state" where
  \<comment> \<open>\<open>this.rl.close()\<close>: closing an open interface emits \<open>close\<close>; a closed one stays as it is\<close>
  "disconnect pv st = (if rl_closed st then st else on_close pv (st\<lparr>rl_closed := True\<rparr>))"

definition first_arg :: "string list \<Rightarrow> string option" where
  \<comment> \<open>\<open>args[0]\<close>: \<open>undefined\<close> on an empty array\<close>
  "first_arg args = (case args of [] \<Rightarrow> None | a # _ \<Rightarrow> Some a)"

definition handleCommand :: "helpers \<Rightarrow> runtime \<Rightarrow> provider \<Rightarrow> state \<Rightarrow> string \<Rightarrow> state" where
  "handleCommand hp rt pv st input =
     (let trimmed = trim input in
      if trimmed = [] then emit [RlPrompt] st
      else if trimmed = ''exit'' \<or> trimmed = ''quit'' \<or> trimmed = ''q'' then disconnect pv st
      else if trimmed = ''help'' \<or> trimmed = ''?'' then emit [RlPrompt] (printHelp hp st)
      else if trimmed = ''commands'' then
        emit [RlPrompt]
          (emit (printAvailableCommands hp (COMMANDS st) (COMMANDS_INFO st) (COMMANDS_DETAIL st)) st)
      else if trimmed = ''clear'' then emit [RlPrompt] (emit [ConsoleClear] st)
      else
        (let parts = split_on (CHR '' '') trimmed;
             command = hd parts;
             args = tl parts
         in if first_arg args = Some ''-h'' then
              emit [RlPrompt]
                (emit (printCommandDetail hp (COMMANDS st) (COMMANDS_INFO st) (COMMANDS_DETAIL st) command) st)
            else wrapper_runCommand rt pv st command (first_arg args)))"

section \<open>\<open>commands/runner\<close>: the one-shot \<open>runCommand\<close>\<close>

definition runCommand_try :: "runtime \<Rightarrow> provider \<Rightarrow> state \<Rightarrow> string \<Rightarrow> string option \<Rightarrow> string option
    \<Rightarrow> (thrown \<times> state) + state" where
  "runCommand_try rt pv st command arg flag =
     (let st1 = emit [echo [Some command, arg, flag]] st;
          st2 = send (Connect ''figma-desktop-cli-headless'' ''1'') st1
      in case connect_result pv of
           Some error \<Rightarrow> Inl (error, st2)
         | None \<Rightarrow>
             (case parse_arg rt arg of
                Inl error \<Rightarrow> Inl (error, st2)
              | Inr argObj \<Rightarrow>
                  (let st3 = send (CallTool command argObj) st2 in
                   case callTool_result pv (requests st2) command argObj of
                     Inl error \<Rightarrow> Inl (error, st3)
                   | Inr result \<Rightarrow>
                       (let st4 = emit [ConsoleLog [Str (JSON_stringify_pretty rt result)]] st3;
                            st5 = send Close st4
                        in case close_result pv of
                             Some error \<Rightarrow> Inl (error, st5)
                           | None \<Rightarrow> Inr (st5\<lparr>exit_code := Some 0\<rparr>)))))"

definition runCommand :: "runtime \<Rightarrow> provider \<Rightarrow> state \<Rightarrow> string \<Rightarrow> string option \<Rightarrow> string option \<Rightarrow> state" where
  "runCommand rt pv st command arg flag =
     (case runCommand_try rt pv st command arg flag of
        Inr st' \<Rightarrow> st'
      | Inl (error, st') \<Rightarrow>
          (let errorMessage = errorMessage error
           in (emit ([ConsoleError [Str ''Error running command:'', Str errorMessage]] @ make_sure) st')
                \<lparr>exit_code := Some 1\<rparr>))"

section \<open>Observations\<close>

definition registry :: "state \<Rightarrow> string list \<times> string list \<times> string list" where
  \<comment> \<open>the three views: names, descriptions, rendered help\<close>
  "registry st = (COMMANDS st, COMMANDS_INFO st, COMMANDS_DETAIL st)"

definition has_checklist :: "event list \<Rightarrow> bool" where
  \<comment> \<open>the three numbered items of \<^term>\<open>make_sure\<close> were all written\<close>
  "has_checklist es = list_all (\<lambda>e. e \<in> set es) (tl make_sure)"

section \<open>The printing helpers, from the specification\<close>

text \<open>
  Modelled from the spec: \<open>printAvailableCommands\<close> of \<open>commands/helpers\<close>, whose source is
  absent. ``Print the full discovered command list with 1-based numbering and
  descriptions''; the tests fix a header containing \<open>Available commands\<close>, then one
  \<open>console.log\<close> for each command, starting with its number and a dot. The rest of each
  line's layout is not fixed by the specification.
\<close>

fun command_lines :: "nat \<Rightarrow> string list \<Rightarrow> string list \<Rightarrow> event list" where
  \<comment> \<open>Modelled from the spec: the numbered lines of \<open>printAvailableCommands\<close>, one for each name\<close>
  "command_lines i [] infos = []"
| "command_lines i (c # cs) infos =
     ConsoleLog [Str (String_of_nat (Suc i) @ ''. '' @ c @ '': ''
                      @ (if i < length infos then infos ! i else []))]
       # command_lines (Suc i) cs infos"

definition spec_printAvailableCommands :: "string list \<Rightarrow> string list \<Rightarrow> string list \<Rightarrow> event list" where
  \<comment> \<open>Modelled from the spec: \<open>printAvailableCommands\<close>, the heading and the numbered lines\<close>
  "spec_printAvailableCommands cmds infos details =
     ConsoleLog [Str ''\<newline>Available commands:''] # command_lines 0 cmds infos"

text \<open>
  Modelled from the spec: \<open>printCommandDetail\<close> of \<open>commands/helpers\<close>, whose source is absent.
  Detail help ``is served from the Registry's renderedHelp; if \<open>name\<close> is not present in the
  Registry, respond with an "unknown command" message plus the full available-commands
  listing''. The tests add: the name is trimmed first; an empty name prints
  \<open>Please provide a command name\<close> and the listing; an unknown one prints \<open>Unknown command\<close>
  and the listing; a known one prints its name, its description and its detail.
\<close>

fun indexOf :: "string list \<Rightarrow> string \<Rightarrow> nat option" where
  \<comment> \<open>Modelled from the spec: the place of a name in the registry, \<^term>\<open>None\<close> when not present\<close>
  "indexOf [] x = None"
| "indexOf (y # ys) x = (if y = x then Some 0 else map_option Suc (indexOf ys x))"

definition spec_printCommandDetail :: "string list \<Rightarrow> string list \<Rightarrow> string list \<Rightarrow> string \<Rightarrow> event list" where
  \<comment> \<open>Modelled from the spec: \<open>printCommandDetail\<close>, for an empty, an unknown and a known name\<close>
  "spec_printCommandDetail cmds infos details command =
     (let nm = trim command in
      if nm = [] then
        ConsoleLog [Str ''Please provide a command name.''] # spec_printAvailableCommands cmds infos details
      else
        (case indexOf cmds nm of
           None \<Rightarrow>
             ConsoleLog [Str (''Unknown command: '' @ nm)] # spec_printAvailableCommands cmds infos details
         | Some i \<Rightarrow>
             [ConsoleLog [Str (''\<newline>'' @ nm)],
              ConsoleLog [Str (if i < length infos then infos ! i else [])],
              ConsoleLog [Str (if i < length details then details ! i else [])]]))"

definition spec_helpers :: "string \<Rightarrow> helpers" where
  \<comment> \<open>Modelled from the spec: the helpers of \<open>commands/helpers\<close> with the version given\<close>
  "spec_helpers version =
     \<lparr>getCurrentVersion = version,
      printAvailableCommands = spec_printAvailableCommands,
      printCommandDetail = spec_printCommandDetail\<rparr>"

section \<open>Sample inputs\<close>

text \<open>
  A runtime that agrees with \<open>JSON.parse\<close> on the strings listed and rejects every other
  string, and providers that answer, that fail each call, and that cannot be reached.
\<close>

definition sample_parse :: "string \<Rightarrow> thrown + json" where
  "sample_parse s =
     (if s = ''{}'' then Inr (JObj [])
      else if s = ''123'' then Inr (JNum 123)
      else if s = ''{\"pageId\":\"123:456\"}'' then Inr (JObj [(''pageId'', JStr ''123:456'')])
      else if s = ''{\"pageId\": \"1\"}'' then Inr (JObj [(''pageId'', JStr ''1'')])
      else Inl (JsError (''Unexpected token in JSON: '' @ s)))"

definition sample_pretty :: "json \<Rightarrow> string" where
  "sample_pretty r =
     (if r = JObj [(''ok'', JBool True)] then ''{\<newline>  \"ok\": true\<newline>}'' else ''{}'')"

definition sample_helpers :: helpers where
  \<comment> \<open>helpers that write one line each\<close>
  "sample_helpers =
     \<lparr>getCurrentVersion = ''0.1.0'',
      printAvailableCommands = (\<lambda>cmds infos details. [ConsoleLog [Str ''Available commands:'']]),
      printCommandDetail = (\<lambda>cmds infos details command. [ConsoleLog [Str command]])\<rparr>"

definition sample_runtime :: runtime where
  "sample_runtime = \<lparr>JSON_parse = sample_parse, JSON_stringify_pretty = sample_pretty\<rparr>"

definition sample_tools :: "tool list" where
  "sample_tools =
     [\<lparr>name = ''get_current_page'', description = None, inputSchema = None\<rparr>,
      \<lparr>name = ''navigate_page'', description = Some ''Navigates to a specific page'',
       inputSchema = Some \<lparr>properties = Some [(''pageId'', Some \<lparr>type_tag = Some ''string'',
                                                                prop_description = None\<rparr>)],
                            required = Some [''pageId'']\<rparr>\<rparr>]"

definition null_schema_tools :: "tool list" where
  \<comment> \<open>the same two tools, the schema of \<open>pageId\<close> being \<open>null\<close>\<close>
  "null_schema_tools =
     [\<lparr>name = ''get_current_page'', description = None, inputSchema = None\<rparr>,
      \<lparr>name = ''navigate_page'', description = Some ''Navigates to a specific page'',
       inputSchema = Some \<lparr>properties = Some [(''pageId'', None)],
                            required = Some [''pageId'']\<rparr>\<rparr>]"

definition sample_provider :: provider where
  "sample_provider =
     \<lparr>connect_result = None,
      listTools_result = Inr sample_tools,
      callTool_result = (\<lambda>sent nm args. Inr (JObj [(''ok'', JBool True)])),
      close_result = None\<rparr>"

definition null_schema_provider :: provider where
  "null_schema_provider = sample_provider\<lparr>listTools_result := Inr null_schema_tools\<rparr>"

definition failing_provider :: provider where
  "failing_provider =
     \<lparr>connect_result = None,
      listTools_result = Inl (JsError ''fetch failed''),
      callTool_result = (\<lambda>sent nm args. Inl (JsError ''Tool execution failed'')),
      close_result = None\<rparr>"

definition unreachable_provider :: provider where
  "unreachable_provider = failing_provider\<lparr>connect_result := Some (JsError ''Connection failed'')\<rparr>"

definition process_start :: state where
  "process_start =
     \<lparr>COMMANDS = [], COMMANDS_INFO = [], COMMANDS_DETAIL = [], client = None, console = [],
      requests = [], rl_closed = False, exit_code = None\<rparr>"

definition sample_session :: state where
  \<comment> \<open>a connected wrapper whose registry holds one stale entry\<close>
  "sample_session =
     process_start\<lparr>COMMANDS := [''old_tool''], COMMANDS_INFO := [''An older tool''],
                   COMMANDS_DETAIL := [''\<newline>Parameters:\<newline>No parameters required\<newline>\<newline>Example:\<newline>old_tool {}\<newline>''],
                   client := Some (''figma-desktop-cli'', ''1'')\<rparr>"

section \<open>Properties of discovery\<close>

lemma populate_frame:
  "case populate ts st of
     Inl (e, st') \<Rightarrow>
       console st' = console st \<and> requests st' = requests st \<and> client st' = client st
       \<and> exit_code st' = exit_code st \<and> rl_closed st' = rl_closed st
   | Inr st' \<Rightarrow>
       console st' = console st \<and> requests st' = requests st \<and> client st' = client st
       \<and> exit_code st' = exit_code st \<and> rl_closed st' = rl_closed st"
proof (induction ts arbitrary: st)
  case Nil
  show ?case by simp
next
  case (Cons t ts)
  show ?case
  proof (cases "tool_detail t")
    case (Inl e)
    then show ?thesis by (simp add: Let_def)
  next
    case (Inr d)
    with Cons [of "st\<lparr>COMMANDS := COMMANDS st @ [name t],
                      COMMANDS_INFO := COMMANDS_INFO st @ [tool_info t],
                      COMMANDS_DETAIL := COMMANDS_DETAIL st @ [d]\<rparr>"]
    show ?thesis by (simp add: Let_def split: sum.splits prod.splits)
  qed
qed

lemma populate_total:
  "map tool_detail ts = map Inr ds \<Longrightarrow>
   populate ts st =
     Inr (st\<lparr>COMMANDS := COMMANDS st @ map name ts,
             COMMANDS_INFO := COMMANDS_INFO st @ map tool_info ts,
             COMMANDS_DETAIL := COMMANDS_DETAIL st @ ds\<rparr>)"
proof (induction ts arbitrary: st ds)
  case Nil
  then show ?case by simp
next
  case (Cons t ts)
  then obtain d ds' where ds: "ds = d # ds'" and d: "tool_detail t = Inr d"
    and rest: "map tool_detail ts = map Inr ds'"
    by (cases ds) auto
  show ?case
    using Cons.IH [OF rest] by (simp add: ds d Let_def)
qed

lemma populate_Inr:
  "populate ts st = Inr st' \<Longrightarrow>
   \<exists>ds. map tool_detail ts = map Inr ds
      \<and> st' = st\<lparr>COMMANDS := COMMANDS st @ map name ts,
                 COMMANDS_INFO := COMMANDS_INFO st @ map tool_info ts,
                 COMMANDS_DETAIL := COMMANDS_DETAIL st @ ds\<rparr>"
proof (induction ts arbitrary: st)
  case Nil
  then show ?case by auto
next
  case (Cons t ts)
  from Cons.prems obtain d where d: "tool_detail t = Inr d"
    by (cases "tool_detail t") (auto simp: Let_def)
  let ?st = "st\<lparr>COMMANDS := COMMANDS st @ [name t],
                  COMMANDS_INFO := COMMANDS_INFO st @ [tool_info t],
                  COMMANDS_DETAIL := COMMANDS_DETAIL st @ [d]\<rparr>"
  have "populate ts ?st = Inr st'"
    using Cons.prems by (simp add: d Let_def)
  from Cons.IH [OF this] obtain ds where
    "map tool_detail ts = map Inr ds"
    "st' = ?st\<lparr>COMMANDS := COMMANDS ?st @ map name ts,
                COMMANDS_INFO := COMMANDS_INFO ?st @ map tool_info ts,
                COMMANDS_DETAIL := COMMANDS_DETAIL ?st @ ds\<rparr>"
    by blast
  then have "map tool_detail (t # ts) = map Inr (d # ds)
      \<and> st' = st\<lparr>COMMANDS := COMMANDS st @ map name (t # ts),
                 COMMANDS_INFO := COMMANDS_INFO st @ map tool_info (t # ts),
                 COMMANDS_DETAIL := COMMANDS_DETAIL st @ (d # ds)\<rparr>"
    by (simp add: d)
  then show ?case by blast
qed

lemma populate_throw:
  "map tool_detail pre = map Inr ds \<Longrightarrow> tool_detail t = Inl e \<Longrightarrow>
   populate (pre @ t # post) st =
     Inl (e, st\<lparr>COMMANDS := COMMANDS st @ map name pre @ [name t],
                COMMANDS_INFO := COMMANDS_INFO st @ map tool_info pre @ [tool_info t],
                COMMANDS_DETAIL := COMMANDS_DETAIL st @ ds\<rparr>)"
proof (induction pre arbitrary: st ds)
  case Nil
  then show ?case by (simp add: Let_def)
next
  case (Cons p pre)
  then obtain d ds' where ds: "ds = d # ds'" and d: "tool_detail p = Inr d"
    and rest: "map tool_detail pre = map Inr ds'"
    by (cases ds) auto
  show ?case
    using Cons.IH [OF rest Cons.prems(2)] by (simp add: ds d Let_def)
qed

lemma format_properties_append:
  "format_properties req (map (\<lambda>(key, v). (key, Some v)) props) detail
     = Inr (detail @ concat (map (\<lambda>(key, v). ''- '' @ key @ '' ''
         @ (if key \<in> set req then ''(required)'' else ''(optional)'') @ '': ''
         @ or_else (type_tag v) ''any'' @ '' - '' @ or_else (prop_description v) [] @ ''\<newline>'') props))"
  by (induction props arbitrary: detail) (auto simp: Let_def)

lemma format_properties_null:
  "(key, None) \<in> set props \<Longrightarrow> format_properties req props detail = Inl null_type_error"
  by (induction req props detail rule: format_properties.induct) (auto simp: Let_def)

text \<open>A turn of the loop throws exactly when a property's schema is \<open>null\<close>.\<close>

lemma format_properties_Inr_iff:
  "(\<exists>d. format_properties req props detail = Inr d) = (None \<notin> snd ` set props)"
  by (induction req props detail rule: format_properties.induct) (auto simp: Let_def)

lemma tool_detail_Inr_iff:
  "(\<exists>d. tool_detail t = Inr d)
     = (\<forall>sc props. inputSchema t = Some sc \<and> properties sc = Some props \<longrightarrow> None \<notin> snd ` set props)"
proof (cases "has_properties (inputSchema t)")
  case False
  then show ?thesis
    by (auto simp: tool_detail_def has_properties_def split: option.splits)
next
  case True
  then obtain sc props where sc: "inputSchema t = Some sc" and props: "properties sc = Some props"
    by (auto simp: has_properties_def split: option.splits)
  have "(\<exists>d. tool_detail t = Inr d)
      = (\<exists>d. format_properties (case required sc of None \<Rightarrow> [] | Some r \<Rightarrow> r) props
                ''\<newline>Parameters:\<newline>'' = Inr d)"
    using True by (auto simp: tool_detail_def sc props Let_def split: sum.splits)
  then show ?thesis
    by (simp add: format_properties_Inr_iff sc props)
qed

lemma discoverTools_fail:
  "client st = Some c \<Longrightarrow> listTools_result pv = Inl e \<Longrightarrow>
   discoverTools pv st =
     st\<lparr>console := console st
          @ [ConsoleWarn [Str ''Warning: Could not discover tools from server:'', Thrown e]],
        requests := requests st @ [ListTools]\<rparr>"
  by (simp add: discoverTools_def discoverTools_try_def emit_def send_def Let_def)

lemma discoverTools_ended:
  "client st = Some c \<Longrightarrow> discoverTools_try pv st = Inr st' \<Longrightarrow> discoverTools pv st = st'"
  by (simp add: discoverTools_def)

lemma discoverTools_try_Inr:
  assumes ok: "listTools_result pv = Inr tools" and ended: "discoverTools_try pv st = Inr st'"
  obtains ds where "map tool_detail tools = map Inr ds"
    and "st' = st\<lparr>COMMANDS := map name tools, COMMANDS_INFO := map tool_info tools,
                 COMMANDS_DETAIL := ds,
                 console := console st
                   @ [ConsoleLog [Str (''\<newline>Discovered '' @ String_of_nat (length tools)
                                       @ '' tools from Figma MCP server'')]],
                 requests := requests st @ [ListTools]\<rparr>"
proof -
  let ?st1 = "(send ListTools st)\<lparr>COMMANDS := [], COMMANDS_INFO := [], COMMANDS_DETAIL := []\<rparr>"
  let ?count = "ConsoleLog [Str (''\<newline>Discovered '' @ String_of_nat (length tools)
                                  @ '' tools from Figma MCP server'')]"
  have unfolded: "discoverTools_try pv st =
      (case populate tools ?st1 of
         Inl (error, st2) \<Rightarrow> Inl (error, st2)
       | Inr st2 \<Rightarrow> Inr (emit [?count] st2))"
    using ok by (simp add: discoverTools_try_def Let_def)
  show thesis
  proof (cases "populate tools ?st1")
    case (Inl thrown_state)
    then have False
      using ended unfolded by (cases thrown_state) simp
    then show thesis ..
  next
    case (Inr st2)
    then have st': "st' = emit [?count] st2"
      using ended unfolded by simp
    from populate_Inr [OF Inr] obtain ds where
      both: "map tool_detail tools = map Inr ds
        \<and> st2 = ?st1\<lparr>COMMANDS := COMMANDS ?st1 @ map name tools,
                      COMMANDS_INFO := COMMANDS_INFO ?st1 @ map tool_info tools,
                      COMMANDS_DETAIL := COMMANDS_DETAIL ?st1 @ ds\<rparr>" ..
    from both have built: "map tool_detail tools = map Inr ds" ..
    from both have st2: "st2 = ?st1\<lparr>COMMANDS := COMMANDS ?st1 @ map name tools,
                      COMMANDS_INFO := COMMANDS_INFO ?st1 @ map tool_info tools,
                      COMMANDS_DETAIL := COMMANDS_DETAIL ?st1 @ ds\<rparr>" ..
    have "st' = st\<lparr>COMMANDS := map name tools, COMMANDS_INFO := map tool_info tools,
                 COMMANDS_DETAIL := ds,
                 console := console st @ [?count],
                 requests := requests st @ [ListTools]\<rparr>"
      unfolding st' st2 by (simp add: emit_def send_def)
    with built show thesis by (rule that)
  qed
qed

lemma discoverTools_try_total:
  assumes ok: "listTools_result pv = Inr tools" and built: "map tool_detail tools = map Inr ds"
  shows "discoverTools_try pv st =
     Inr (st\<lparr>COMMANDS := map name tools, COMMANDS_INFO := map tool_info tools,
             COMMANDS_DETAIL := ds,
             console := console st
               @ [ConsoleLog [Str (''\<newline>Discovered '' @ String_of_nat (length tools)
                                   @ '' tools from Figma MCP server'')]],
             requests := requests st @ [ListTools]\<rparr>)"
  using ok by (simp add: discoverTools_try_def populate_total [OF built] emit_def send_def Let_def)

lemma sample_session_client: "client sample_session = Some (''figma-desktop-cli'', ''1'')"
  by (simp add: sample_session_def process_start_def)

lemma sample_tools_names: "map name sample_tools = [''get_current_page'', ''navigate_page'']"
  by (simp add: sample_tools_def)

lemma sample_tools_info:
  "map tool_info sample_tools = [''No description available'', ''Navigates to a specific page'']"
  by (simp add: sample_tools_def tool_info_def or_else_def truthy_def)

lemma sample_tools_detail:
  "map tool_detail sample_tools =
     map Inr
       [''\<newline>Parameters:\<newline>No parameters required\<newline>\<newline>Example:\<newline>get_current_page {}\<newline>'',
        ''\<newline>Parameters:\<newline>- pageId (required): string - \<newline>\<newline>Example:\<newline>navigate_page {\"pageId\":\"<pageId>\"}\<newline>'']"
  by (simp add: sample_tools_def tool_detail_def has_properties_def or_else_def truthy_def
      example_object_def obj_put_def JSON_stringify_def QuoteJSONString_def quote_char_def)

text \<open>
  Claim C2, at a response the code does not survive. \<open>listTools\<close> resolves with two tools,
  the second holding a property whose schema is \<open>null\<close>. The arrays are cleared, the first
  tool is pushed to all three, the name and the description of the second are pushed,
  then \<open>value.type\<close> throws and the \<open>catch\<close> only warns: the registry is neither what it
  was nor the views of the tools listed, and its three views differ in length.
\<close>

theorem discovery_partial_after_throw:
  "registry sample_session
     = ([''old_tool''], [''An older tool''],
        [''\<newline>Parameters:\<newline>No parameters required\<newline>\<newline>Example:\<newline>old_tool {}\<newline>''])
   \<and> listTools_result null_schema_provider = Inr null_schema_tools
   \<and> registry (discoverTools null_schema_provider sample_session)
     = ([''get_current_page'', ''navigate_page''],
        [''No description available'', ''Navigates to a specific page''],
        [''\<newline>Parameters:\<newline>No parameters required\<newline>\<newline>Example:\<newline>get_current_page {}\<newline>''])
   \<and> console (discoverTools null_schema_provider sample_session)
     = [ConsoleWarn [Str ''Warning: Could not discover tools from server:'', Thrown null_type_error]]
   \<and> exit_code (discoverTools null_schema_provider sample_session) = None"
proof -
  have listed: "listTools_result null_schema_provider = Inr null_schema_tools"
    by (simp add: null_schema_provider_def sample_provider_def)
  have first: "map tool_detail [\<lparr>name = ''get_current_page'', description = None, inputSchema = None\<rparr>]
      = map Inr [''\<newline>Parameters:\<newline>No parameters required\<newline>\<newline>Example:\<newline>get_current_page {}\<newline>'']"
    by (simp add: tool_detail_def has_properties_def)
  have second: "tool_detail
        \<lparr>name = ''navigate_page'', description = Some ''Navigates to a specific page'',
         inputSchema = Some \<lparr>properties = Some [(''pageId'', None)],
                              required = Some [''pageId'']\<rparr>\<rparr>
      = Inl null_type_error"
    by (simp add: tool_detail_def has_properties_def)
  have loop: "populate null_schema_tools st =
      Inl (null_type_error,
           st\<lparr>COMMANDS := COMMANDS st @ [''get_current_page'', ''navigate_page''],
              COMMANDS_INFO := COMMANDS_INFO st
                @ [''No description available'', ''Navigates to a specific page''],
              COMMANDS_DETAIL := COMMANDS_DETAIL st
                @ [''\<newline>Parameters:\<newline>No parameters required\<newline>\<newline>Example:\<newline>get_current_page {}\<newline>'']\<rparr>)"
    for st :: state
    using populate_throw [OF first second, of "[]" st]
    by (simp add: null_schema_tools_def tool_info_def or_else_def truthy_def)
  have round: "discoverTools null_schema_provider sample_session =
      sample_session
        \<lparr>COMMANDS := [''get_current_page'', ''navigate_page''],
         COMMANDS_INFO := [''No description available'', ''Navigates to a specific page''],
         COMMANDS_DETAIL :=
           [''\<newline>Parameters:\<newline>No parameters required\<newline>\<newline>Example:\<newline>get_current_page {}\<newline>''],
         console := console sample_session
           @ [ConsoleWarn [Str ''Warning: Could not discover tools from server:'',
                           Thrown null_type_error]],
         requests := requests sample_session @ [ListTools]\<rparr>"
    by (simp add: discoverTools_def discoverTools_try_def sample_session_client listed loop
        emit_def send_def Let_def)
  show ?thesis
    unfolding round by (simp add: listed registry_def sample_session_def process_start_def)
qed

text \<open>
  Claim C6. A discovery round is successful when its \<open>try\<close> block ran to its end:
  \<open>listTools\<close> resolved and no turn of the loop threw. After such a round the three views
  have the length of the tool list, and the entries at each index are the name, the
  description and the rendered help of the tool listed at that index; the round wrote
  the count of the tools and nothing else.
\<close>

theorem registry_alignment:
  assumes held: "client st = Some c"
    and ok: "listTools_result pv = Inr tools"
    and ended: "discoverTools_try pv st = Inr st'"
  shows "discoverTools pv st = st'
    \<and> length (COMMANDS st') = length tools
    \<and> length (COMMANDS_INFO st') = length tools
    \<and> length (COMMANDS_DETAIL st') = length tools
    \<and> (\<forall>i < length tools.
          COMMANDS st' ! i = name (tools ! i)
        \<and> COMMANDS_INFO st' ! i = tool_info (tools ! i)
        \<and> tool_detail (tools ! i) = Inr (COMMANDS_DETAIL st' ! i))
    \<and> console st'
        = console st @ [ConsoleLog [Str (''\<newline>Discovered '' @ String_of_nat (length tools)
                                         @ '' tools from Figma MCP server'')]]"
proof -
  from ok ended obtain ds where built: "map tool_detail tools = map Inr ds"
    and st': "st' = st\<lparr>COMMANDS := map name tools, COMMANDS_INFO := map tool_info tools,
                 COMMANDS_DETAIL := ds,
                 console := console st
                   @ [ConsoleLog [Str (''\<newline>Discovered '' @ String_of_nat (length tools)
                                       @ '' tools from Figma MCP server'')]],
                 requests := requests st @ [ListTools]\<rparr>"
    by (rule discoverTools_try_Inr)
  have len: "length ds = length tools"
    using built by (metis length_map)
  have each: "tool_detail (tools ! i) = Inr (ds ! i)" if "i < length tools" for i
  proof -
    have "map tool_detail tools ! i = map Inr ds ! i"
      using built by simp
    then show ?thesis
      using that len by simp
  qed
  have result: "discoverTools pv st = st'"
    using held ended by (rule discoverTools_ended)
  show ?thesis
    using result len each by (simp add: st')
qed

theorem registry_alignment_witness:
  "discoverTools_try sample_provider sample_session
     = Inr (discoverTools sample_provider sample_session)
   \<and> length (COMMANDS (discoverTools sample_provider sample_session)) = 2
   \<and> length (COMMANDS_INFO (discoverTools sample_provider sample_session)) = 2
   \<and> length (COMMANDS_DETAIL (discoverTools sample_provider sample_session)) = 2
   \<and> COMMANDS (discoverTools sample_provider sample_session) ! 1 = ''navigate_page''
   \<and> COMMANDS_INFO (discoverTools sample_provider sample_session) ! 1 = ''Navigates to a specific page''
   \<and> COMMANDS_DETAIL (discoverTools sample_provider sample_session) ! 1
       = ''\<newline>Parameters:\<newline>- pageId (required): string - \<newline>\<newline>Example:\<newline>navigate_page {\"pageId\":\"<pageId>\"}\<newline>''"
proof -
  define st' where "st' = sample_session
     \<lparr>COMMANDS := map name sample_tools, COMMANDS_INFO := map tool_info sample_tools,
      COMMANDS_DETAIL :=
        [''\<newline>Parameters:\<newline>No parameters required\<newline>\<newline>Example:\<newline>get_current_page {}\<newline>'',
         ''\<newline>Parameters:\<newline>- pageId (required): string - \<newline>\<newline>Example:\<newline>navigate_page {\"pageId\":\"<pageId>\"}\<newline>''],
      console := console sample_session
        @ [ConsoleLog [Str (''\<newline>Discovered '' @ String_of_nat (length sample_tools)
                            @ '' tools from Figma MCP server'')]],
      requests := requests sample_session @ [ListTools]\<rparr>"
  have ok: "listTools_result sample_provider = Inr sample_tools"
    by (simp add: sample_provider_def)
  have ended: "discoverTools_try sample_provider sample_session = Inr st'"
    unfolding st'_def using ok sample_tools_detail by (rule discoverTools_try_total)
  have len: "length sample_tools = 2"
    by (simp add: sample_tools_def)
  have second_name: "name (sample_tools ! Suc 0) = ''navigate_page''"
    by (simp add: sample_tools_def)
  have second_info: "tool_info (sample_tools ! Suc 0) = ''Navigates to a specific page''"
    by (simp add: sample_tools_def tool_info_def or_else_def truthy_def)
  have second_detail: "COMMANDS_DETAIL st' ! Suc 0
      = ''\<newline>Parameters:\<newline>- pageId (required): string - \<newline>\<newline>Example:\<newline>navigate_page {\"pageId\":\"<pageId>\"}\<newline>''"
    by (simp add: st'_def)
  from registry_alignment [OF sample_session_client ok ended]
  show ?thesis
    using ended by (auto simp: len second_name second_info second_detail)
qed

text \<open>
  Claim C5. The rendered help is a function of the tool's name and input schema (its
  description plays no part). For any schema whose properties are objects it is the
  \<open>Parameters:\<close> heading, one line \<open>- key (required|optional): type - description\<close> for each
  property, then the example of the name and the object of placeholders. For the one
  required string property \<open>pageId\<close> that is the line \<open>- pageId (required): string - \<close> with
  its description, and for the tool \<open>navigate_page\<close> the example
  \<open>navigate_page {"pageId":"<pageId>"}\<close>. A tool with no input schema has
  \<open>No parameters required\<close> under the heading and the example \<open>name {}\<close>.
\<close>

theorem detail_help_layout:
  "tool_detail (t\<lparr>description := d'\<rparr>) = tool_detail t
   \<and> tool_detail \<lparr>name = nm, description = d,
                   inputSchema = Some \<lparr>properties = Some (map (\<lambda>(key, v). (key, Some v)) props),
                                        required = Some req\<rparr>\<rparr>
     = Inr (''\<newline>Parameters:\<newline>''
       @ concat (map (\<lambda>(key, v). ''- '' @ key @ '' ''
           @ (if key \<in> set req then ''(required)'' else ''(optional)'') @ '': ''
           @ or_else (type_tag v) ''any'' @ '' - '' @ or_else (prop_description v) [] @ ''\<newline>'') props)
       @ ''\<newline>Example:\<newline>'' @ nm @ '' '' @ JSON_stringify (example_object (map fst props)) @ ''\<newline>'')
   \<and> tool_detail \<lparr>name = nm, description = d,
       inputSchema = Some \<lparr>properties = Some [(''pageId'', Some \<lparr>type_tag = Some ''string'',
                                                                prop_description = pd\<rparr>)],
                            required = Some [''pageId'']\<rparr>\<rparr>
     = Inr (''\<newline>Parameters:\<newline>- pageId (required): string - '' @ or_else pd [] @ ''\<newline>''
       @ ''\<newline>Example:\<newline>'' @ nm @ '' {\"pageId\":\"<pageId>\"}\<newline>'')
   \<and> tool_detail \<lparr>name = ''navigate_page'', description = d,
       inputSchema = Some \<lparr>properties = Some [(''pageId'', Some \<lparr>type_tag = Some ''string'',
                                                                prop_description = pd\<rparr>)],
                            required = Some [''pageId'']\<rparr>\<rparr>
     = Inr (''\<newline>Parameters:\<newline>- pageId (required): string - '' @ or_else pd [] @ ''\<newline>''
       @ ''\<newline>Example:\<newline>navigate_page {\"pageId\":\"<pageId>\"}\<newline>'')
   \<and> tool_detail \<lparr>name = nm, description = d, inputSchema = None\<rparr>
     = Inr (''\<newline>Parameters:\<newline>No parameters required\<newline>''
       @ ''\<newline>Example:\<newline>'' @ nm @ '' {}\<newline>'')"
proof -
  have independent: "tool_detail (t\<lparr>description := d'\<rparr>) = tool_detail t"
    by (simp add: tool_detail_def Let_def split: sum.splits)
  have keys: "map (fst \<circ> (\<lambda>(key, v). (key, Some v))) props = map fst props"
    by (induction props) auto
  have general: "tool_detail \<lparr>name = nm, description = d,
                   inputSchema = Some \<lparr>properties = Some (map (\<lambda>(key, v). (key, Some v)) props),
                                        required = Some req\<rparr>\<rparr>
     = Inr (''\<newline>Parameters:\<newline>''
       @ concat (map (\<lambda>(key, v). ''- '' @ key @ '' ''
           @ (if key \<in> set req then ''(required)'' else ''(optional)'') @ '': ''
           @ or_else (type_tag v) ''any'' @ '' - '' @ or_else (prop_description v) [] @ ''\<newline>'') props)
       @ ''\<newline>Example:\<newline>'' @ nm @ '' '' @ JSON_stringify (example_object (map fst props)) @ ''\<newline>'')"
    by (simp add: tool_detail_def has_properties_def format_properties_append keys)
  have page: "tool_detail \<lparr>name = nm', description = d,
       inputSchema = Some \<lparr>properties = Some [(''pageId'', Some \<lparr>type_tag = Some ''string'',
                                                                prop_description = pd\<rparr>)],
                            required = Some [''pageId'']\<rparr>\<rparr>
     = Inr (''\<newline>Parameters:\<newline>- pageId (required): string - '' @ or_else pd [] @ ''\<newline>''
       @ ''\<newline>Example:\<newline>'' @ nm' @ '' {\"pageId\":\"<pageId>\"}\<newline>'')" for nm'
    by (simp add: tool_detail_def has_properties_def or_else_def truthy_def
        example_object_def obj_put_def JSON_stringify_def QuoteJSONString_def quote_char_def)
  have bare: "tool_detail \<lparr>name = nm, description = d, inputSchema = None\<rparr>
     = Inr (''\<newline>Parameters:\<newline>No parameters required\<newline>''
       @ ''\<newline>Example:\<newline>'' @ nm @ '' {}\<newline>'')"
    by (simp add: tool_detail_def has_properties_def)
  show ?thesis
    using independent general page [of nm] page [of "''navigate_page''"] bare by simp
qed

text \<open>
  Claim C10. With no client held, the wrapper's \<open>runCommand\<close> writes
  \<open>MCP server not available!\<close> and prompts again, whatever the command and the argument:
  the result mentions neither the runtime's parser nor the provider, no request is sent
  and the process does not exit.
\<close>

theorem no_client_no_dispatch:
  assumes "client st = None"
  shows "wrapper_runCommand rt pv st command arg
      = st\<lparr>console := console st @ [ConsoleLog [Str ''MCP server not available!''], RlPrompt]\<rparr>
    \<and> requests (wrapper_runCommand rt pv st command arg) = requests st
    \<and> exit_code (wrapper_runCommand rt pv st command arg) = exit_code st
    \<and> rl_closed (wrapper_runCommand rt pv st command arg) = rl_closed st"
  using assms by (simp add: wrapper_runCommand_def emit_def)

theorem no_client_no_dispatch_witness:
  "wrapper_runCommand sample_runtime sample_provider process_start ''navigate_page'' (Some ''not json'')
     = process_start\<lparr>console := [ConsoleLog [Str ''MCP server not available!''], RlPrompt]\<rparr>
   \<and> requests (wrapper_runCommand sample_runtime sample_provider process_start
                  ''navigate_page'' (Some ''not json'')) = []
   \<and> exit_code (wrapper_runCommand sample_runtime sample_provider process_start
                   ''navigate_page'' (Some ''not json'')) = None"
proof -
  have "client process_start = None" by (simp add: process_start_def)
  from no_client_no_dispatch [OF this, of sample_runtime sample_provider "''navigate_page''"
      "Some ''not json''"]
  show ?thesis by (simp add: process_start_def)
qed

section \<open>What the two \<open>runCommand\<close>s send, write and return\<close>

lemma parse_arg_blank:
  "arg = None \<or> arg = Some w \<Longrightarrow> trim w = [] \<Longrightarrow> parse_arg rt arg = Inr (JObj [])"
  by (auto simp: parse_arg_def truthy_def)

lemma parse_arg_text: "trim s \<noteq> [] \<Longrightarrow> parse_arg rt (Some s) = JSON_parse rt s"
  by (auto simp: parse_arg_def truthy_def trim_def)

lemma runCommand_requests:
  "requests (runCommand rt pv st command arg flag) =
     requests st @ [Connect ''figma-desktop-cli-headless'' ''1'']
       @ (case connect_result pv of Some e \<Rightarrow> [] | None \<Rightarrow>
           (case parse_arg rt arg of Inl e \<Rightarrow> [] | Inr argObj \<Rightarrow>
              CallTool command argObj
                # (case callTool_result pv
                          (requests st @ [Connect ''figma-desktop-cli-headless'' ''1''])
                          command argObj of
                     Inl e \<Rightarrow> [] | Inr r \<Rightarrow> [Close])))"
  by (simp add: runCommand_def runCommand_try_def emit_def send_def Let_def
      split: option.splits sum.splits)

lemma runCommand_exit_code:
  "exit_code (runCommand rt pv st command arg flag) =
     (case connect_result pv of Some e \<Rightarrow> Some 1 | None \<Rightarrow>
        (case parse_arg rt arg of Inl e \<Rightarrow> Some 1 | Inr argObj \<Rightarrow>
           (case callTool_result pv
                   (requests st @ [Connect ''figma-desktop-cli-headless'' ''1''])
                   command argObj of
              Inl e \<Rightarrow> Some 1
            | Inr r \<Rightarrow> (case close_result pv of Some e \<Rightarrow> Some 1 | None \<Rightarrow> Some 0))))"
  by (simp add: runCommand_def runCommand_try_def emit_def send_def Let_def
      split: option.splits sum.splits)

lemma runCommand_console:
  "console (runCommand rt pv st command arg flag) =
     console st @ echo [Some command, arg, flag]
       # (case connect_result pv of
            Some e \<Rightarrow> ConsoleError [Str ''Error running command:'', Str (errorMessage e)] # make_sure
          | None \<Rightarrow>
           (case parse_arg rt arg of
              Inl e \<Rightarrow> ConsoleError [Str ''Error running command:'', Str (errorMessage e)] # make_sure
            | Inr argObj \<Rightarrow>
               (case callTool_result pv
                       (requests st @ [Connect ''figma-desktop-cli-headless'' ''1''])
                       command argObj of
                  Inl e \<Rightarrow> ConsoleError [Str ''Error running command:'', Str (errorMessage e)] # make_sure
                | Inr r \<Rightarrow>
                    ConsoleLog [Str (JSON_stringify_pretty rt r)]
                      # (case close_result pv of
                           Some e \<Rightarrow> ConsoleError [Str ''Error running command:'', Str (errorMessage e)]
                                      # make_sure
                         | None \<Rightarrow> []))))"
  by (simp add: runCommand_def runCommand_try_def emit_def send_def Let_def
      split: option.splits sum.splits)

lemma wrapper_runCommand_requests:
  "requests (wrapper_runCommand rt pv st command arg) =
     requests st @ (case client st of None \<Rightarrow> [] | Some c \<Rightarrow>
        (case parse_arg rt arg of Inl e \<Rightarrow> [] | Inr argObj \<Rightarrow> [CallTool command argObj]))"
  by (simp add: wrapper_runCommand_def wrapper_runCommand_try_def emit_def send_def Let_def
      split: option.splits sum.splits)

lemma wrapper_runCommand_console:
  "console (wrapper_runCommand rt pv st command arg) =
     console st @
       (case client st of
          None \<Rightarrow> [ConsoleLog [Str ''MCP server not available!''], RlPrompt]
        | Some c \<Rightarrow>
            [echo [Some command, arg],
             (case parse_arg rt arg of
                Inl e \<Rightarrow> ConsoleError [Str ''Error running command:'', Str (errorMessage e)]
              | Inr argObj \<Rightarrow>
                  (case callTool_result pv (requests st) command argObj of
                     Inl e \<Rightarrow> ConsoleError [Str ''Error running command:'', Str (errorMessage e)]
                   | Inr r \<Rightarrow> ConsoleLog [Str (JSON_stringify_pretty rt r)])),
             RlPrompt])"
  by (simp add: wrapper_runCommand_def wrapper_runCommand_try_def emit_def send_def Let_def
      split: option.splits sum.splits)

lemma wrapper_runCommand_frame:
  "exit_code (wrapper_runCommand rt pv st command arg) = exit_code st
   \<and> rl_closed (wrapper_runCommand rt pv st command arg) = rl_closed st
   \<and> client (wrapper_runCommand rt pv st command arg) = client st
   \<and> registry (wrapper_runCommand rt pv st command arg) = registry st"
  by (simp add: wrapper_runCommand_def wrapper_runCommand_try_def emit_def send_def Let_def
      registry_def split: option.splits sum.splits)

lemma wrapper_runCommand_state:
  "wrapper_runCommand rt pv st command arg =
     st\<lparr>console := console (wrapper_runCommand rt pv st command arg),
        requests := requests (wrapper_runCommand rt pv st command arg)\<rparr>"
  by (simp add: wrapper_runCommand_def wrapper_runCommand_try_def emit_def send_def Let_def
      split: option.splits sum.splits)

lemma sample_parse_braces: "JSON_parse sample_runtime ''{}'' = Inr (JObj [])"
  by (simp add: sample_runtime_def sample_parse_def)

lemma sample_parse_not_json:
  "JSON_parse sample_runtime ''not json'' = Inl (JsError ''Unexpected token in JSON: not json'')"
  by (simp add: sample_runtime_def sample_parse_def)

lemma trim_not_json: "trim ''not json'' = ''not json''"
  by (simp add: trim_def isWhiteSpace_def)

lemma trim_spaces: "trim ''   '' = []"
  by (simp add: trim_def isWhiteSpace_def)

text \<open>
  Claim C1, as the code has it. An argument that is not blank and for which
  \<open>JSON.parse\<close> throws is reported and never reaches \<open>callTool\<close>. The wrapper, holding a
  client, writes the echoed line, \<open>Error running command:\<close> with the parser's message and
  the prompt, and changes nothing else: no request, no exit, the interface left open.
  The one-shot runner sends its connect request only and exits with status 1; when the
  connection was made, the message it shows is the parser's.
\<close>

theorem malformed_arguments_rejected:
  assumes nonblank: "trim arg \<noteq> []" and bad: "JSON_parse rt arg = Inl e"
  shows "(client ws \<noteq> None \<longrightarrow>
            wrapper_runCommand rt pv ws command (Some arg)
              = ws\<lparr>console := console ws
                      @ [echo [Some command, Some arg],
                         ConsoleError [Str ''Error running command:'', Str (errorMessage e)],
                         RlPrompt]\<rparr>)
    \<and> requests (wrapper_runCommand rt pv ws command (Some arg)) = requests ws
    \<and> exit_code (wrapper_runCommand rt pv ws command (Some arg)) = exit_code ws
    \<and> rl_closed (wrapper_runCommand rt pv ws command (Some arg)) = rl_closed ws
    \<and> requests (runCommand rt pv st command (Some arg) flag)
        = requests st @ [Connect ''figma-desktop-cli-headless'' ''1'']
    \<and> exit_code (runCommand rt pv st command (Some arg) flag) = Some 1
    \<and> (connect_result pv = None \<longrightarrow>
          console (runCommand rt pv st command (Some arg) flag)
            = console st
              @ [echo [Some command, Some arg, flag],
                 ConsoleError [Str ''Error running command:'', Str (errorMessage e)]]
              @ make_sure)"
proof -
  have thrown: "parse_arg rt (Some arg) = Inl e"
    using nonblank bad by (simp add: parse_arg_text)
  have interactive: "client ws \<noteq> None \<longrightarrow>
            wrapper_runCommand rt pv ws command (Some arg)
              = ws\<lparr>console := console ws
                      @ [echo [Some command, Some arg],
                         ConsoleError [Str ''Error running command:'', Str (errorMessage e)],
                         RlPrompt]\<rparr>"
    by (auto simp: wrapper_runCommand_def wrapper_runCommand_try_def thrown emit_def Let_def)
  have unsent: "requests (wrapper_runCommand rt pv ws command (Some arg)) = requests ws"
    by (simp add: wrapper_runCommand_requests thrown split: option.splits)
  have one_shot: "requests (runCommand rt pv st command (Some arg) flag)
        = requests st @ [Connect ''figma-desktop-cli-headless'' ''1'']"
    by (simp add: runCommand_requests thrown split: option.splits)
  have status: "exit_code (runCommand rt pv st command (Some arg) flag) = Some 1"
    by (simp add: runCommand_exit_code thrown split: option.splits)
  have shown: "connect_result pv = None \<longrightarrow>
          console (runCommand rt pv st command (Some arg) flag)
            = console st
              @ [echo [Some command, Some arg, flag],
                 ConsoleError [Str ''Error running command:'', Str (errorMessage e)]]
              @ make_sure"
    by (simp add: runCommand_console thrown)
  show ?thesis
    using interactive unsent one_shot status shown wrapper_runCommand_frame [of rt pv ws command "Some arg"]
    by simp
qed

theorem malformed_arguments_rejected_witness:
  "trim ''not json'' \<noteq> []
   \<and> wrapper_runCommand sample_runtime sample_provider sample_session ''navigate_page'' (Some ''not json'')
       = sample_session\<lparr>console :=
           [ConsoleLog [Str ''navigate_page not json''],
            ConsoleError [Str ''Error running command:'', Str ''Unexpected token in JSON: not json''],
            RlPrompt]\<rparr>
   \<and> requests (runCommand sample_runtime sample_provider process_start ''navigate_page''
                  (Some ''not json'') None)
       = [Connect ''figma-desktop-cli-headless'' ''1'']
   \<and> exit_code (runCommand sample_runtime sample_provider process_start ''navigate_page''
                   (Some ''not json'') None) = Some 1"
proof -
  have nonblank: "trim ''not json'' \<noteq> []"
    by (simp add: trim_not_json)
  have reached: "connect_result sample_provider = None"
    by (simp add: sample_provider_def)
  from malformed_arguments_rejected [OF nonblank sample_parse_not_json,
      of sample_session sample_provider "''navigate_page''" process_start None]
  show ?thesis
    using nonblank reached
    by (simp add: sample_session_client echo_def truthy_def errorMessage_def
        sample_session_def process_start_def)
qed

text \<open>
  Claim C1 as stated fails on an argument that is JSON but not an object: \<open>123\<close> is not
  blank, parses to a number, and both the wrapper and the runner pass it to \<open>callTool\<close>;
  the runner then exits with status 0.
\<close>

theorem non_object_json_reaches_provider:
  "trim ''123'' \<noteq> []
   \<and> JSON_parse sample_runtime ''123'' = Inr (JNum 123)
   \<and> requests (wrapper_runCommand sample_runtime sample_provider sample_session
                  ''navigate_page'' (Some ''123''))
       = [CallTool ''navigate_page'' (JNum 123)]
   \<and> requests (runCommand sample_runtime sample_provider process_start
                  ''navigate_page'' (Some ''123'') None)
       = [Connect ''figma-desktop-cli-headless'' ''1'', CallTool ''navigate_page'' (JNum 123), Close]
   \<and> exit_code (runCommand sample_runtime sample_provider process_start
                   ''navigate_page'' (Some ''123'') None) = Some 0"
proof -
  have nonblank: "trim ''123'' = ''123''"
    by (simp add: trim_def isWhiteSpace_def)
  have parsed: "JSON_parse sample_runtime ''123'' = Inr (JNum 123)"
    by (simp add: sample_runtime_def sample_parse_def)
  have arg: "parse_arg sample_runtime (Some ''123'') = Inr (JNum 123)"
    using parsed by (simp add: parse_arg_text nonblank)
  show ?thesis
    by (simp add: nonblank parsed arg wrapper_runCommand_requests runCommand_requests
        runCommand_exit_code sample_session_client sample_provider_def)
      (simp add: sample_session_def process_start_def)
qed

text \<open>
  Claim C3. On a runtime whose \<open>JSON.parse\<close> reads \<open>{}\<close> as the empty object, an absent
  argument, the empty string and any string of white space only are handled as the
  string \<open>{}\<close> is: the same requests are sent, with \<open>callTool\<close> given the command name and
  the empty object, the same status results and, after the echoed command line, the
  same output is written. This holds for the one-shot runner and for the wrapper.
\<close>

theorem blank_argument_is_empty_object:
  assumes braces: "JSON_parse rt ''{}'' = Inr (JObj [])"
    and blank: "arg = None \<or> arg = Some w" "trim w = []"
  shows "requests (runCommand rt pv st command arg flag)
       = requests (runCommand rt pv st command (Some ''{}'') flag)
    \<and> exit_code (runCommand rt pv st command arg flag)
       = exit_code (runCommand rt pv st command (Some ''{}'') flag)
    \<and> drop (Suc (length (console st))) (console (runCommand rt pv st command arg flag))
       = drop (Suc (length (console st))) (console (runCommand rt pv st command (Some ''{}'') flag))
    \<and> (connect_result pv = None \<longrightarrow>
         requests (runCommand rt pv st command arg flag)
           = requests st @ [Connect ''figma-desktop-cli-headless'' ''1'', CallTool command (JObj [])]
             @ (case callTool_result pv (requests st @ [Connect ''figma-desktop-cli-headless'' ''1''])
                       command (JObj []) of
                  Inl e \<Rightarrow> [] | Inr r \<Rightarrow> [Close]))
    \<and> requests (wrapper_runCommand rt pv ws command arg)
       = requests (wrapper_runCommand rt pv ws command (Some ''{}''))
    \<and> drop (Suc (length (console ws))) (console (wrapper_runCommand rt pv ws command arg))
       = drop (Suc (length (console ws))) (console (wrapper_runCommand rt pv ws command (Some ''{}'')))
    \<and> (client ws \<noteq> None \<longrightarrow>
         requests (wrapper_runCommand rt pv ws command arg)
           = requests ws @ [CallTool command (JObj [])])"
proof -
  have absent: "parse_arg rt arg = Inr (JObj [])"
    using blank by (rule parse_arg_blank)
  have written: "parse_arg rt (Some ''{}'') = Inr (JObj [])"
    using braces by (simp add: parse_arg_text trim_def isWhiteSpace_def)
  have sent: "requests (runCommand rt pv st command arg flag)
       = requests (runCommand rt pv st command (Some ''{}'') flag)"
    by (simp add: runCommand_requests absent written split: option.splits)
  have status: "exit_code (runCommand rt pv st command arg flag)
       = exit_code (runCommand rt pv st command (Some ''{}'') flag)"
    by (simp add: runCommand_exit_code absent written split: option.splits)
  have shown: "drop (Suc (length (console st))) (console (runCommand rt pv st command arg flag))
       = drop (Suc (length (console st))) (console (runCommand rt pv st command (Some ''{}'') flag))"
    by (simp add: runCommand_console absent written split: option.splits)
  have call: "connect_result pv = None \<longrightarrow>
         requests (runCommand rt pv st command arg flag)
           = requests st @ [Connect ''figma-desktop-cli-headless'' ''1'', CallTool command (JObj [])]
             @ (case callTool_result pv (requests st @ [Connect ''figma-desktop-cli-headless'' ''1''])
                       command (JObj []) of
                  Inl e \<Rightarrow> [] | Inr r \<Rightarrow> [Close])"
    by (simp add: runCommand_requests absent)
  have sent': "requests (wrapper_runCommand rt pv ws command arg)
       = requests (wrapper_runCommand rt pv ws command (Some ''{}''))"
    by (simp add: wrapper_runCommand_requests absent written split: option.splits)
  have shown': "drop (Suc (length (console ws))) (console (wrapper_runCommand rt pv ws command arg))
       = drop (Suc (length (console ws))) (console (wrapper_runCommand rt pv ws command (Some ''{}'')))"
    by (simp add: wrapper_runCommand_console absent written split: option.splits)
  have call': "client ws \<noteq> None \<longrightarrow>
         requests (wrapper_runCommand rt pv ws command arg)
           = requests ws @ [CallTool command (JObj [])]"
    by (auto simp add: wrapper_runCommand_requests absent)
  show ?thesis
    using sent status shown call sent' shown' call' by simp
qed

theorem blank_argument_is_empty_object_witness:
  "requests (runCommand sample_runtime sample_provider process_start ''get_current_page'' (Some ''   '') None)
     = [Connect ''figma-desktop-cli-headless'' ''1'', CallTool ''get_current_page'' (JObj []), Close]
   \<and> requests (runCommand sample_runtime sample_provider process_start ''get_current_page'' (Some ''{}'') None)
     = [Connect ''figma-desktop-cli-headless'' ''1'', CallTool ''get_current_page'' (JObj []), Close]
   \<and> requests (wrapper_runCommand sample_runtime sample_provider sample_session ''get_current_page'' (Some ''   ''))
     = [CallTool ''get_current_page'' (JObj [])]
   \<and> requests (wrapper_runCommand sample_runtime sample_provider sample_session ''get_current_page'' (Some ''{}''))
     = [CallTool ''get_current_page'' (JObj [])]"
proof -
  have blank: "Some ''   '' = None \<or> Some ''   '' = Some ''   ''"
    by simp
  have reached: "connect_result sample_provider = None"
    by (simp add: sample_provider_def)
  have answered: "callTool_result sample_provider sent nm args = Inr (JObj [(''ok'', JBool True)])"
    for sent nm args
    by (simp add: sample_provider_def)
  have fresh: "requests process_start = []" "requests sample_session = []"
    by (simp_all add: sample_session_def process_start_def)
  from blank_argument_is_empty_object [OF sample_parse_braces blank trim_spaces,
      of sample_provider process_start "''get_current_page''" None sample_session]
  show ?thesis
    by (auto simp: reached answered fresh sample_session_client)
qed

section \<open>Failure messages\<close>

lemma has_checklist_Cons_make_sure: "has_checklist (ev # ev' # make_sure)"
  by (simp add: has_checklist_def make_sure_def)

lemma has_checklist_Cons3_make_sure: "has_checklist (ev # ev' # ev'' # make_sure)"
  by (simp add: has_checklist_def make_sure_def)

lemma wrapper_runCommand_no_checklist:
  "\<not> has_checklist (drop (length (console st)) (console (wrapper_runCommand rt pv st command arg)))"
  by (simp add: wrapper_runCommand_console has_checklist_def make_sure_def echo_def
      split: option.splits sum.splits)

lemma discoverTools_console:
  assumes held: "client st = Some c"
  shows "(\<exists>args. console (discoverTools pv st) = console st @ [ConsoleWarn args])
       \<or> (\<exists>args. console (discoverTools pv st) = console st @ [ConsoleLog args])"
proof (cases "listTools_result pv")
  case (Inl e)
  with held show ?thesis by (simp add: discoverTools_fail)
next
  case (Inr tools)
  let ?st1 = "(send ListTools st)\<lparr>COMMANDS := [], COMMANDS_INFO := [], COMMANDS_DETAIL := []\<rparr>"
  have start: "console ?st1 = console st"
    by (simp add: send_def)
  show ?thesis
  proof (cases "populate tools ?st1")
    case (Inl thrown_state)
    obtain e st2 where thrown_state: "thrown_state = (e, st2)"
      by (cases thrown_state)
    have "console st2 = console st"
      using populate_frame [where ts = tools and st = ?st1] Inl thrown_state start by simp
    then have "console (discoverTools pv st)
        = console st @ [ConsoleWarn [Str ''Warning: Could not discover tools from server:'', Thrown e]]"
      using held Inr Inl thrown_state
      by (simp add: discoverTools_def discoverTools_try_def emit_def Let_def)
    then show ?thesis by blast
  next
    case right: (Inr st2)
    have "console st2 = console st"
      using populate_frame [where ts = tools and st = ?st1] right start by simp
    then have "console (discoverTools pv st)
        = console st @ [ConsoleLog [Str (''\<newline>Discovered '' @ String_of_nat (length tools)
                                         @ '' tools from Figma MCP server'')]]"
      using held Inr right
      by (simp add: discoverTools_def discoverTools_try_def emit_def Let_def)
    then show ?thesis by blast
  qed
qed

lemma discoverTools_no_checklist:
  "\<not> has_checklist (drop (length (console st)) (console (discoverTools pv st)))"
proof (cases "client st")
  case None
  then show ?thesis
    by (simp add: discoverTools_def has_checklist_def make_sure_def)
next
  case (Some c)
  from discoverTools_console [OF this, of pv] show ?thesis
    by (auto simp: has_checklist_def make_sure_def)
qed

lemma runCommand_checklist:
  "has_checklist (drop (length (console st)) (console (runCommand rt pv st command arg flag)))
     = (exit_code (runCommand rt pv st command arg flag) = Some 1)"
  by (simp add: runCommand_console runCommand_exit_code has_checklist_Cons_make_sure has_checklist_Cons3_make_sure
      split: option.splits sum.splits)
    (simp add: has_checklist_def make_sure_def echo_def)

lemma parse_arg_not_json:
  "parse_arg sample_runtime (Some ''not json'') = Inl (JsError ''Unexpected token in JSON: not json'')"
  using sample_parse_not_json by (simp add: parse_arg_text trim_not_json)

lemma parse_arg_braces: "parse_arg sample_runtime (Some ''{}'') = Inr (JObj [])"
  using sample_parse_braces by (simp add: parse_arg_text trim_def isWhiteSpace_def)

lemma sample_session_fresh: "console sample_session = [] \<and> requests sample_session = []"
  by (simp add: sample_session_def process_start_def)

lemma process_start_fresh: "console process_start = [] \<and> requests process_start = []"
  by (simp add: process_start_def)

text \<open>
  Claim C7, as the code has it. The checklist \<open>Make sure: 1. 2. 3.\<close> is written by a failed
  \<open>connect\<close> of the wrapper and by every failure of the one-shot runner, a malformed argument
  included: there the parser's message is shown and the checklist follows it. The runner
  writes the checklist exactly when it exits with status 1. The wrapper's \<open>runCommand\<close>
  never writes it: a malformed argument and a failed call both show only
  \<open>Error running command:\<close> and the message. A discovery round never writes it either.
\<close>

theorem checklist_placement:
  assumes unreachable: "connect_result pvu = Some eu"
    and reachable: "connect_result pv = None"
    and malformed: "parse_arg rt bad = Inl ep"
    and parsed: "parse_arg rt good = Inr argObj"
    and refused: "callTool_result pvx (requests ws) command argObj = Inl ec"
    and held: "client ws = Some c"
  shows "console (connect hp pvu st)
       = console st @ ConsoleError [Str ''Failed to connect to Figma Desktop MCP server:'', Thrown eu]
                      # make_sure
    \<and> exit_code (connect hp pvu st) = Some 1
    \<and> console (runCommand rt pvu st command arg flag)
       = console st @ echo [Some command, arg, flag]
           # ConsoleError [Str ''Error running command:'', Str (errorMessage eu)] # make_sure
    \<and> console (runCommand rt pv st command bad flag)
       = console st @ echo [Some command, bad, flag]
           # ConsoleError [Str ''Error running command:'', Str (errorMessage ep)] # make_sure
    \<and> has_checklist (drop (length (console st)) (console (runCommand rt' pv' st command arg flag)))
       = (exit_code (runCommand rt' pv' st command arg flag) = Some 1)
    \<and> console (wrapper_runCommand rt pv' ws command bad)
       = console ws @ [echo [Some command, bad],
                       ConsoleError [Str ''Error running command:'', Str (errorMessage ep)], RlPrompt]
    \<and> console (wrapper_runCommand rt pvx ws command good)
       = console ws @ [echo [Some command, good],
                       ConsoleError [Str ''Error running command:'', Str (errorMessage ec)], RlPrompt]
    \<and> \<not> has_checklist (drop (length (console st)) (console (wrapper_runCommand rt' pv' st command arg)))
    \<and> \<not> has_checklist (drop (length (console st)) (console (discoverTools pv' st)))"
proof -
  have startup: "console (connect hp pvu st)
       = console st @ ConsoleError [Str ''Failed to connect to Figma Desktop MCP server:'', Thrown eu]
                      # make_sure
    \<and> exit_code (connect hp pvu st) = Some 1"
    using unreachable by (simp add: connect_def emit_def send_def)
  have one_shot_connect: "console (runCommand rt pvu st command arg flag)
       = console st @ echo [Some command, arg, flag]
           # ConsoleError [Str ''Error running command:'', Str (errorMessage eu)] # make_sure"
    using unreachable by (simp add: runCommand_console)
  have one_shot_parse: "console (runCommand rt pv st command bad flag)
       = console st @ echo [Some command, bad, flag]
           # ConsoleError [Str ''Error running command:'', Str (errorMessage ep)] # make_sure"
    using reachable malformed by (simp add: runCommand_console)
  have interactive_parse: "console (wrapper_runCommand rt pv' ws command bad)
       = console ws @ [echo [Some command, bad],
                       ConsoleError [Str ''Error running command:'', Str (errorMessage ep)], RlPrompt]"
    using held malformed by (simp add: wrapper_runCommand_console)
  have interactive_call: "console (wrapper_runCommand rt pvx ws command good)
       = console ws @ [echo [Some command, good],
                       ConsoleError [Str ''Error running command:'', Str (errorMessage ec)], RlPrompt]"
    using held parsed refused by (simp add: wrapper_runCommand_console)
  show ?thesis
    using startup one_shot_connect one_shot_parse interactive_parse interactive_call
      runCommand_checklist [of st rt' pv' command arg flag]
      wrapper_runCommand_no_checklist [of st rt' pv' command arg]
      discoverTools_no_checklist [of st pv']
    by simp
qed


theorem checklist_placement_witness:
  "console (connect sample_helpers unreachable_provider process_start)
     = ConsoleError [Str ''Failed to connect to Figma Desktop MCP server:'',
                     Thrown (JsError ''Connection failed'')] # make_sure
   \<and> exit_code (connect sample_helpers unreachable_provider process_start) = Some 1
   \<and> console (runCommand sample_runtime unreachable_provider process_start ''navigate_page'' None None)
     = ConsoleLog [Str ''navigate_page'']
         # ConsoleError [Str ''Error running command:'', Str ''Connection failed''] # make_sure
   \<and> console (runCommand sample_runtime sample_provider process_start ''navigate_page''
                 (Some ''not json'') None)
     = ConsoleLog [Str ''navigate_page not json'']
         # ConsoleError [Str ''Error running command:'', Str ''Unexpected token in JSON: not json'']
         # make_sure
   \<and> console (wrapper_runCommand sample_runtime sample_provider sample_session ''navigate_page''
                 (Some ''not json''))
     = [ConsoleLog [Str ''navigate_page not json''],
        ConsoleError [Str ''Error running command:'', Str ''Unexpected token in JSON: not json''],
        RlPrompt]
   \<and> console (wrapper_runCommand sample_runtime failing_provider sample_session ''navigate_page''
                 (Some ''{}''))
     = [ConsoleLog [Str ''navigate_page {}''],
        ConsoleError [Str ''Error running command:'', Str ''Tool execution failed''],
        RlPrompt]"
proof -
  have unreachable: "connect_result unreachable_provider = Some (JsError ''Connection failed'')"
    by (simp add: unreachable_provider_def)
  have reachable: "connect_result sample_provider = None"
    by (simp add: sample_provider_def)
  have refused: "callTool_result failing_provider (requests sample_session) ''navigate_page'' (JObj [])
      = Inl (JsError ''Tool execution failed'')"
    by (simp add: failing_provider_def)
  from checklist_placement [OF unreachable reachable parse_arg_not_json parse_arg_braces refused
      sample_session_client, of sample_helpers process_start None None]
  show ?thesis
    by (simp add: process_start_fresh sample_session_fresh echo_def truthy_def errorMessage_def)
qed

text \<open>
  Claim C7 as stated fails: a call the provider rejects in interactive mode and a
  rejected \<open>listTools\<close> are reported without the checklist, and the one-shot runner shows
  the checklist for a malformed argument.
\<close>

theorem interactive_failure_without_checklist:
  "console (wrapper_runCommand sample_runtime failing_provider sample_session ''navigate_page''
              (Some ''{}''))
     = [ConsoleLog [Str ''navigate_page {}''],
        ConsoleError [Str ''Error running command:'', Str ''Tool execution failed''],
        RlPrompt]
   \<and> \<not> has_checklist (console (wrapper_runCommand sample_runtime failing_provider sample_session
                                ''navigate_page'' (Some ''{}'')))
   \<and> console (discoverTools failing_provider sample_session)
     = [ConsoleWarn [Str ''Warning: Could not discover tools from server:'',
                     Thrown (JsError ''fetch failed'')]]
   \<and> \<not> has_checklist (console (discoverTools failing_provider sample_session))
   \<and> has_checklist (console (runCommand sample_runtime sample_provider process_start
                              ''navigate_page'' (Some ''not json'') None))"
proof -
  have refused: "callTool_result failing_provider sent nm args = Inl (JsError ''Tool execution failed'')"
    for sent nm args
    by (simp add: failing_provider_def)
  have run: "console (wrapper_runCommand sample_runtime failing_provider sample_session ''navigate_page''
              (Some ''{}''))
     = [ConsoleLog [Str ''navigate_page {}''],
        ConsoleError [Str ''Error running command:'', Str ''Tool execution failed''],
        RlPrompt]"
    by (simp add: wrapper_runCommand_console sample_session_client parse_arg_braces refused
        sample_session_fresh echo_def truthy_def errorMessage_def)
  have failed: "listTools_result failing_provider = Inl (JsError ''fetch failed'')"
    by (simp add: failing_provider_def)
  have warned: "console (discoverTools failing_provider sample_session)
     = [ConsoleWarn [Str ''Warning: Could not discover tools from server:'',
                     Thrown (JsError ''fetch failed'')]]"
    by (simp add: discoverTools_fail [OF sample_session_client failed] sample_session_fresh)
  have reachable: "connect_result sample_provider = None"
    by (simp add: sample_provider_def)
  have one_shot: "has_checklist (console (runCommand sample_runtime sample_provider process_start
                              ''navigate_page'' (Some ''not json'') None))"
    by (simp add: runCommand_console reachable parse_arg_not_json process_start_fresh
        has_checklist_def make_sure_def)
  show ?thesis
    unfolding run warned using one_shot by (simp add: has_checklist_def make_sure_def)
qed

section \<open>The command line of the interactive loop\<close>

lemma split_on_not_Nil: "split_on c s \<noteq> []"
  by (induction s) (auto split: list.splits)

lemma join_split_on: "join [c] (split_on c s) = s"
proof (induction s)
  case Nil
  show ?case by simp
next
  case (Cons x xs)
  obtain w ws where parts: "split_on c xs = w # ws"
    using split_on_not_Nil [of c xs] by (cases "split_on c xs") auto
  show ?case
    using Cons parts by (cases ws) auto
qed

lemma split_on_no_separator: "w \<in> set (split_on c s) \<Longrightarrow> c \<notin> set w"
  by (induction s arbitrary: w) (auto split: if_splits list.splits)

lemma rev_dropWhile_rev_Cons:
  "\<not> P x \<Longrightarrow> rev (dropWhile P (rev (x # t))) = x # rev (dropWhile P (rev t))"
  by (simp add: dropWhile_append)

lemma trim_cases:
  "trim s = (case dropWhile isWhiteSpace s of [] \<Rightarrow> [] | x # t \<Rightarrow> x # rev (dropWhile isWhiteSpace (rev t)))"
proof -
  define d where "d = dropWhile isWhiteSpace s"
  have start: "d \<noteq> [] \<Longrightarrow> \<not> isWhiteSpace (hd d)"
    unfolding d_def using hd_dropWhile [of isWhiteSpace s] by simp
  have "rev (dropWhile isWhiteSpace (rev d))
      = (case d of [] \<Rightarrow> [] | x # t \<Rightarrow> x # rev (dropWhile isWhiteSpace (rev t)))"
  proof (cases d)
    case Nil
    then show ?thesis by simp
  next
    case (Cons x t)
    then have "\<not> isWhiteSpace x" using start by simp
    then have "rev (dropWhile isWhiteSpace (rev (x # t))) = x # rev (dropWhile isWhiteSpace (rev t))"
      by (rule rev_dropWhile_rev_Cons)
    then show ?thesis
      unfolding Cons by simp
  qed
  then show ?thesis
    by (simp only: trim_def d_def)
qed

lemma trim_starts: "trim s = x # t \<Longrightarrow> \<not> isWhiteSpace x"
proof -
  assume line: "trim s = x # t"
  define d where "d = dropWhile isWhiteSpace s"
  have start: "d \<noteq> [] \<Longrightarrow> \<not> isWhiteSpace (hd d)"
    unfolding d_def using hd_dropWhile [of isWhiteSpace s] by simp
  have "trim s = (case d of [] \<Rightarrow> [] | y # u \<Rightarrow> y # rev (dropWhile isWhiteSpace (rev u)))"
    unfolding d_def by (rule trim_cases)
  with line have "d \<noteq> [] \<and> hd d = x"
    by (cases d) auto
  with start show ?thesis by auto
qed

lemma trim_Cons: "\<not> isWhiteSpace x \<Longrightarrow> trim (x # t) \<noteq> []"
  by (simp add: trim_cases)

lemma first_token_not_blank:
  assumes "split_on (CHR '' '') (trim input) = command # args" and "trim input \<noteq> []"
  shows "trim command \<noteq> []"
proof -
  obtain x t where line: "trim input = x # t"
    using assms(2) by (cases "trim input") auto
  then have start: "\<not> isWhiteSpace x"
    by (rule trim_starts)
  then have "x \<noteq> CHR '' ''"
    by (auto simp: isWhiteSpace_def)
  then obtain w where "command = x # w"
    using assms(1) line split_on_not_Nil [of "CHR '' ''" t]
    by (auto split: list.splits)
  then show ?thesis
    using start by (simp add: trim_Cons)
qed

lemma handleCommand_tokens:
  assumes parts: "split_on (CHR '' '') (trim input) = command # a # rest"
  shows "handleCommand hp rt pv st input =
     (if a = ''-h'' then
        emit [RlPrompt]
          (emit (printCommandDetail hp (COMMANDS st) (COMMANDS_INFO st) (COMMANDS_DETAIL st) command) st)
      else wrapper_runCommand rt pv st command (Some a))"
proof -
  have "trim input \<noteq> []" "trim input \<noteq> ''exit''" "trim input \<noteq> ''quit''" "trim input \<noteq> ''q''"
    "trim input \<noteq> ''help''" "trim input \<noteq> ''?''" "trim input \<noteq> ''commands''"
    "trim input \<noteq> ''clear''"
    using parts by auto
  then show ?thesis
    using parts by (simp add: handleCommand_def first_arg_def Let_def)
qed

lemma indexOf_None: "(indexOf cmds x = None) = (x \<notin> set cmds)"
  by (induction cmds) auto


lemma join_Cons_longer: "(join [c] (a # rest) = a) = (rest = [])"
proof (cases rest)
  case Nil
  then show ?thesis by simp
next
  case (Cons b more)
  have "length (join [c] (a # b # more)) > length a"
    by simp
  then show ?thesis
    using Cons by auto
qed

lemma handleCommand_single:
  assumes parts: "split_on (CHR '' '') (trim input) = [command]"
    and named: "command \<notin> {[], ''exit'', ''quit'', ''q'', ''help'', ''?'', ''commands'', ''clear''}"
  shows "handleCommand hp rt pv st input = wrapper_runCommand rt pv st command None"
proof -
  have "join '' '' (split_on (CHR '' '') (trim input)) = trim input"
    by (rule join_split_on)
  then have "trim input = command"
    using parts by simp
  then show ?thesis
    using parts named by (simp add: handleCommand_def first_arg_def Let_def)
qed

lemma split_sample_line:
  "split_on (CHR '' '') (trim ''navigate_page {\"pageId\": \"1\"}'')
     = [''navigate_page'', ''{\"pageId\":'', ''\"1\"}'']"
  by (simp add: trim_def isWhiteSpace_def)

text \<open>
  Claim C4, as the code has it. The trimmed line is split at every space. When a second
  part exists and is not \<open>-h\<close>, that part alone is the argument of \<open>runCommand\<close>: it holds no
  space, and it is the whole remainder of the line only when no third part follows. A
  line of one part that is not a control word runs the command with no argument.
\<close>

theorem following_token_is_the_argument:
  assumes parts: "split_on (CHR '' '') (trim input) = command # a # rest"
    and not_help: "a \<noteq> ''-h''"
    and alone: "split_on (CHR '' '') (trim input') = [command']"
    and named: "command' \<notin> {[], ''exit'', ''quit'', ''q'', ''help'', ''?'', ''commands'', ''clear''}"
  shows "handleCommand hp rt pv st input = wrapper_runCommand rt pv st command (Some a)
    \<and> trim input = command @ '' '' @ join '' '' (a # rest)
    \<and> CHR '' '' \<notin> set a
    \<and> (a = join '' '' (a # rest)) = (rest = [])
    \<and> handleCommand hp rt pv st input' = wrapper_runCommand rt pv st command' None"
proof -
  have dispatched: "handleCommand hp rt pv st input = wrapper_runCommand rt pv st command (Some a)"
    using handleCommand_tokens [OF parts] not_help by simp
  have "join '' '' (split_on (CHR '' '') (trim input)) = trim input"
    by (rule join_split_on)
  then have line: "trim input = command @ '' '' @ join '' '' (a # rest)"
    using parts by simp
  have token: "CHR '' '' \<notin> set a"
    using split_on_no_separator [of a "CHR '' ''" "trim input"] parts by simp
  have whole: "(a = join '' '' (a # rest)) = (rest = [])"
    using join_Cons_longer [of "CHR '' ''" a rest] by auto
  have bare: "handleCommand hp rt pv st input' = wrapper_runCommand rt pv st command' None"
    using alone named by (rule handleCommand_single)
  show ?thesis
    using dispatched line token whole bare by simp
qed

theorem following_token_is_the_argument_witness:
  "handleCommand sample_helpers sample_runtime sample_provider sample_session
       ''navigate_page {\"pageId\": \"1\"}''
     = wrapper_runCommand sample_runtime sample_provider sample_session ''navigate_page''
         (Some ''{\"pageId\":'')
   \<and> trim ''navigate_page {\"pageId\": \"1\"}''
     = ''navigate_page'' @ '' '' @ join '' '' [''{\"pageId\":'', ''\"1\"}'']
   \<and> handleCommand sample_helpers sample_runtime sample_provider sample_session
       '' get_current_page ''
     = wrapper_runCommand sample_runtime sample_provider sample_session ''get_current_page'' None"
proof -
  have not_help: "''{\"pageId\":'' \<noteq> ''-h''"
    by simp
  have alone: "split_on (CHR '' '') (trim '' get_current_page '') = [''get_current_page'']"
    by (simp add: trim_def isWhiteSpace_def)
  have named: "''get_current_page''
      \<notin> {[], ''exit'', ''quit'', ''q'', ''help'', ''?'', ''commands'', ''clear''}"
    by simp
  from following_token_is_the_argument [OF split_sample_line not_help alone named,
      of sample_helpers sample_runtime sample_provider sample_session]
  show ?thesis by simp
qed

text \<open>
  Claim C4 as stated fails on an argument that contains a space: of the line
  \<open>navigate_page {"pageId": "1"}\<close> only \<open>{"pageId":\<close> is passed on, which does not parse, so
  nothing is sent; the whole remainder would have been parsed and sent.
\<close>

theorem argument_cut_at_first_space:
  "handleCommand sample_helpers sample_runtime sample_provider sample_session
       ''navigate_page {\"pageId\": \"1\"}''
     = sample_session\<lparr>console :=
         [ConsoleLog [Str ''navigate_page {\"pageId\":''],
          ConsoleError [Str ''Error running command:'', Str ''Unexpected token in JSON: {\"pageId\":''],
          RlPrompt]\<rparr>
   \<and> wrapper_runCommand sample_runtime sample_provider sample_session ''navigate_page''
         (Some ''{\"pageId\": \"1\"}'')
     = sample_session\<lparr>console :=
         [ConsoleLog [Str ''navigate_page {\"pageId\": \"1\"}''],
          ConsoleLog [Str ''{\<newline>  \"ok\": true\<newline>}''],
          RlPrompt],
        requests := [CallTool ''navigate_page'' (JObj [(''pageId'', JStr ''1'')])]\<rparr>
   \<and> handleCommand sample_helpers sample_runtime sample_provider sample_session
       ''navigate_page {\"pageId\": \"1\"}''
     \<noteq> wrapper_runCommand sample_runtime sample_provider sample_session ''navigate_page''
         (Some ''{\"pageId\": \"1\"}'')"
proof -
  have cut: "parse_arg sample_runtime (Some ''{\"pageId\":'')
      = Inl (JsError ''Unexpected token in JSON: {\"pageId\":'')"
    by (simp add: parse_arg_def truthy_def trim_def isWhiteSpace_def sample_runtime_def sample_parse_def)
  have whole: "parse_arg sample_runtime (Some ''{\"pageId\": \"1\"}'')
      = Inr (JObj [(''pageId'', JStr ''1'')])"
    by (simp add: parse_arg_def truthy_def trim_def isWhiteSpace_def sample_runtime_def sample_parse_def)
  have answered: "callTool_result sample_provider sent nm args = Inr (JObj [(''ok'', JBool True)])"
    for sent nm args
    by (simp add: sample_provider_def)
  have pretty: "JSON_stringify_pretty sample_runtime (JObj [(''ok'', JBool True)])
      = ''{\<newline>  \"ok\": true\<newline>}''"
    by (simp add: sample_runtime_def sample_pretty_def)
  have line: "handleCommand sample_helpers sample_runtime sample_provider sample_session
       ''navigate_page {\"pageId\": \"1\"}''
     = wrapper_runCommand sample_runtime sample_provider sample_session ''navigate_page''
         (Some ''{\"pageId\":'')"
    using handleCommand_tokens [OF split_sample_line] by simp
  have run_cut: "wrapper_runCommand sample_runtime sample_provider sample_session ''navigate_page''
         (Some ''{\"pageId\":'')
     = sample_session\<lparr>console :=
         [ConsoleLog [Str ''navigate_page {\"pageId\":''],
          ConsoleError [Str ''Error running command:'', Str ''Unexpected token in JSON: {\"pageId\":''],
          RlPrompt]\<rparr>"
    by (subst wrapper_runCommand_state)
      (simp add: wrapper_runCommand_console wrapper_runCommand_requests sample_session_client cut
        sample_session_fresh echo_def truthy_def errorMessage_def sample_session_def process_start_def)
  have run_whole: "wrapper_runCommand sample_runtime sample_provider sample_session ''navigate_page''
         (Some ''{\"pageId\": \"1\"}'')
     = sample_session\<lparr>console :=
         [ConsoleLog [Str ''navigate_page {\"pageId\": \"1\"}''],
          ConsoleLog [Str ''{\<newline>  \"ok\": true\<newline>}''],
          RlPrompt],
        requests := [CallTool ''navigate_page'' (JObj [(''pageId'', JStr ''1'')])]\<rparr>"
    by (subst wrapper_runCommand_state)
      (simp add: wrapper_runCommand_console wrapper_runCommand_requests sample_session_client whole
        answered pretty sample_session_fresh echo_def truthy_def)
  have "requests (wrapper_runCommand sample_runtime sample_provider sample_session ''navigate_page''
                   (Some ''{\"pageId\":''))
      \<noteq> requests (wrapper_runCommand sample_runtime sample_provider sample_session ''navigate_page''
                   (Some ''{\"pageId\": \"1\"}''))"
    by (simp add: wrapper_runCommand_requests sample_session_client cut whole)
  then have differ: "wrapper_runCommand sample_runtime sample_provider sample_session ''navigate_page''
                   (Some ''{\"pageId\":'')
      \<noteq> wrapper_runCommand sample_runtime sample_provider sample_session ''navigate_page''
                   (Some ''{\"pageId\": \"1\"}'')"
    by (rule contrapos_nn) simp
  show ?thesis
    using differ run_cut run_whole unfolding line by simp
qed

text \<open>
  Claim C8. A line whose second part is \<open>-h\<close> is answered by \<open>printCommandDetail\<close> and the
  prompt: no request is sent, the process does not exit and the interface stays open,
  whatever the helper prints. With the helpers as the specification describes them, a
  name that is not in the registry gets the \<open>Unknown command\<close> notice followed by the whole
  listing of available commands; on an empty registry the listing is its heading alone.
\<close>

theorem detail_help_without_invocation:
  assumes parts: "split_on (CHR '' '') (trim input) = nm # ''-h'' # rest"
    and unknown: "trim nm' \<notin> set (COMMANDS st)"
    and parts': "split_on (CHR '' '') (trim input') = nm' # ''-h'' # rest'"
  shows "handleCommand hp rt pv st input
       = emit [RlPrompt]
           (emit (printCommandDetail hp (COMMANDS st) (COMMANDS_INFO st) (COMMANDS_DETAIL st) nm) st)
    \<and> requests (handleCommand hp rt pv st input) = requests st
    \<and> exit_code (handleCommand hp rt pv st input) = exit_code st
    \<and> rl_closed (handleCommand hp rt pv st input) = rl_closed st
    \<and> console (handleCommand (spec_helpers version) rt pv st input')
       = console st
         @ ConsoleLog [Str (''Unknown command: '' @ trim nm')]
           # spec_printAvailableCommands (COMMANDS st) (COMMANDS_INFO st) (COMMANDS_DETAIL st)
         @ [RlPrompt]
    \<and> (COMMANDS st = [] \<longrightarrow>
         console (handleCommand (spec_helpers version) rt pv st input')
           = console st
             @ [ConsoleLog [Str (''Unknown command: '' @ trim nm')],
                ConsoleLog [Str ''\<newline>Available commands:''],
                RlPrompt])"
proof -
  have served: "handleCommand hp rt pv st input
       = emit [RlPrompt]
           (emit (printCommandDetail hp (COMMANDS st) (COMMANDS_INFO st) (COMMANDS_DETAIL st) nm) st)"
    using handleCommand_tokens [OF parts] by simp
  have line: "trim input' \<noteq> []"
    using parts' by auto
  have named: "trim nm' \<noteq> []"
    using parts' line by (rule first_token_not_blank)
  have absent: "indexOf (COMMANDS st) (trim nm') = None"
    using unknown by (simp add: indexOf_None)
  have notice: "console (handleCommand (spec_helpers version) rt pv st input')
       = console st
         @ ConsoleLog [Str (''Unknown command: '' @ trim nm')]
           # spec_printAvailableCommands (COMMANDS st) (COMMANDS_INFO st) (COMMANDS_DETAIL st)
         @ [RlPrompt]"
    using handleCommand_tokens [OF parts', of "spec_helpers version" rt pv st] named absent
    by (simp add: spec_helpers_def spec_printCommandDetail_def emit_def Let_def)
  have bare_listing: "spec_printAvailableCommands [] infos details
        = [ConsoleLog [Str ''\<newline>Available commands:'']]" for infos details
    by (simp add: spec_printAvailableCommands_def)
  show ?thesis
    by (simp add: served notice bare_listing emit_def)
qed

theorem detail_help_without_invocation_witness:
  "console (handleCommand (spec_helpers ''0.1.0'') sample_runtime sample_provider sample_session
              ''navigate_page -h'')
     = [ConsoleLog [Str ''Unknown command: navigate_page''],
        ConsoleLog [Str ''\<newline>Available commands:''],
        ConsoleLog [Str ''1. old_tool: An older tool''],
        RlPrompt]
   \<and> requests (handleCommand (spec_helpers ''0.1.0'') sample_runtime sample_provider sample_session
                  ''navigate_page -h'') = []
   \<and> exit_code (handleCommand (spec_helpers ''0.1.0'') sample_runtime sample_provider sample_session
                   ''navigate_page -h'') = None"
proof -
  have parts: "split_on (CHR '' '') (trim ''navigate_page -h'') = [''navigate_page'', ''-h'']"
    by (simp add: trim_def isWhiteSpace_def)
  have registered: "COMMANDS sample_session = [''old_tool'']"
      "COMMANDS_INFO sample_session = [''An older tool'']"
    by (simp_all add: sample_session_def process_start_def)
  have unknown: "trim ''navigate_page'' \<notin> set (COMMANDS sample_session)"
    by (simp add: registered trim_def isWhiteSpace_def)
  have quiet: "exit_code sample_session = None"
    by (simp add: sample_session_def process_start_def)
  have name: "trim ''navigate_page'' = ''navigate_page''"
    by (simp add: trim_def isWhiteSpace_def)
  note detail_help_without_invocation [OF parts unknown parts,
      of "spec_helpers ''0.1.0''" sample_runtime sample_provider "''0.1.0''"]
  from this show ?thesis
    by (auto simp: sample_session_fresh quiet registered name spec_printAvailableCommands_def
        String_of_nat.simps)
qed

end
